theory Spec2Isabelle
  imports Complex_Main
begin

section \<open>Numbers and rectangles\<close>

text \<open>
  The game runs on pygame. Python's unbounded integers are modelled as \<open>int\<close>. Python's
  floats are modelled as \<open>real\<close>: the arithmetic below is exact, the rounding of IEEE
  doubles is not represented. The constants \<open>0.5\<close>, \<open>7.5\<close>, \<open>1.7\<close>, \<open>1.3\<close>, \<open>0.99\<close>
  and \<open>0.1\<close> are the decimal fractions written in the source.

  Python's \<open>int(v)\<close> on a float drops the fractional part (rounds toward zero), and
  so does pygame when it builds a \<open>Rect\<close> from float arguments, as in
  \<open>colliderect(x, y, w, h)\<close>.
\<close>

definition py_int :: "real \<Rightarrow> int" where
  "py_int v = (if 0 \<le> v then \<lfloor>v\<rfloor> else \<lceil>v\<rceil>)"

text \<open>
  Assigning a float to an attribute of a \<open>Rect\<close> (\<open>rect.x = v\<close>) is different: pygame 2
  rounds it to the nearest integer, a half away from zero. A \<open>Rect\<close> stores C integers
  of 32 bits; assigning a value outside their range raises \<open>TypeError\<close>.
\<close>

definition pg_round :: "real \<Rightarrow> int" where
  "pg_round v = (if 0 \<le> v then \<lfloor>v + 1 / 2\<rfloor> else \<lceil>v - 1 / 2\<rceil>)"

definition in_c_int :: "int \<Rightarrow> bool" where
  "in_c_int n \<longleftrightarrow> - 2147483648 \<le> n \<and> n \<le> 2147483647"

text \<open>
  \<open>pygame.Rect\<close>: four integer fields; \<open>left\<close>, \<open>top\<close>, \<open>right\<close> and \<open>bottom\<close> are
  derived attributes.
\<close>

record pg_rect =
  rx :: int
  ry :: int
  rw :: int
  rh :: int

definition rect_left :: "pg_rect \<Rightarrow> int" where
  "rect_left r = rx r"

definition rect_top :: "pg_rect \<Rightarrow> int" where
  "rect_top r = ry r"

definition rect_right :: "pg_rect \<Rightarrow> int" where
  "rect_right r = rx r + rw r"

definition rect_bottom :: "pg_rect \<Rightarrow> int" where
  "rect_bottom r = ry r + rh r"

text \<open>
  \<open>Rect.colliderect\<close> as pygame computes it: a rectangle of zero width or height collides
  with nothing; otherwise the open interiors must intersect on both axes (touching edges do
  not collide). For rectangles of positive size the four comparisons are
  \<open>a.left < b.right\<close>, \<open>a.top < b.bottom\<close>, \<open>a.right > b.left\<close>, \<open>a.bottom > b.top\<close>.
\<close>

definition colliderect :: "pg_rect \<Rightarrow> pg_rect \<Rightarrow> bool" where
  "colliderect a b =
     (if rw a = 0 \<or> rh a = 0 \<or> rw b = 0 \<or> rh b = 0 then False
      else min (rx a) (rx a + rw a) < max (rx b) (rx b + rw b)
         \<and> min (ry a) (ry a + rh a) < max (ry b) (ry b + rh b)
         \<and> max (rx a) (rx a + rw a) > min (rx b) (rx b + rw b)
         \<and> max (ry a) (ry a + rh a) > min (ry b) (ry b + rh b))"

text \<open>
  \<open>tile.colliderect(x, y, w, h)\<close> with four numbers first builds a \<open>Rect\<close> from them;
  a float argument is truncated on the way.
\<close>

definition colliderect4 :: "pg_rect \<Rightarrow> real \<Rightarrow> real \<Rightarrow> int \<Rightarrow> int \<Rightarrow> bool" where
  "colliderect4 tile x y w h = colliderect tile \<lparr>rx = py_int x, ry = py_int y, rw = w, rh = h\<rparr>"

text \<open>
  For comparison with the test the code makes, the condition in the words of the
  specification: the box of size \<open>w\<close> by \<open>h\<close> placed at the position \<open>(x, y)\<close>, which need
  not be integral, overlaps the tile (the open interiors intersect).
\<close>

definition box_overlaps :: "pg_rect \<Rightarrow> real \<Rightarrow> real \<Rightarrow> int \<Rightarrow> int \<Rightarrow> bool" where
  "box_overlaps tile x y w h \<longleftrightarrow>
     of_int (rect_left tile) < x + of_int w \<and> x < of_int (rect_right tile)
   \<and> of_int (rect_top tile) < y + of_int h \<and> y < of_int (rect_bottom tile)"

section \<open>Surfaces and errors\<close>

text \<open>
  A sprite sheet is an image file that is not part of the sources; a surface is modelled by
  its pixel size. \<open>Surface.subsurface(x, y, w, h)\<close> raises \<open>ValueError\<close> when the requested
  area is not inside the surface. The player's \<open>image\<close> is modelled by the sheet area it
  was cut from and whether it was mirrored; scaling by 3.5 does not affect any field used
  by the physics (the bounding \<open>rect\<close> is created once, in \<open>_init_sprite\<close>).
\<close>

datatype error = ValueError | ZeroDivisionError | TypeError

record surface =
  surf_w :: int
  surf_h :: int

record sprite =
  area :: pg_rect
  mirrored :: bool

definition subsurface :: "surface \<Rightarrow> int \<Rightarrow> int \<Rightarrow> int \<Rightarrow> int \<Rightarrow> error + pg_rect" where
  "subsurface sheet x y w h =
     (if x < 0 \<or> y < 0 \<or> x + w > surf_w sheet \<or> y + h > surf_h sheet then Inl ValueError
      else Inr \<lparr>rx = x, ry = y, rw = w, rh = h\<rparr>)"

section \<open>The player: Knight\<close>

text \<open>
  The pressed-key snapshot \<open>pygame.key.get_pressed()\<close>, restricted to the four keys the
  code reads.
\<close>

record keys =
  K_a :: bool
  K_d :: bool
  K_SPACE :: bool
  K_LSHIFT :: bool

text \<open>
  The fields of \<open>Knight\<close>. \<open>vel_y\<close> only ever holds Python integers (\<open>0\<close>, \<open>-20\<close>, sums
  with the integer gravity \<open>1\<close>, and differences of \<open>Rect\<close> coordinates), so it is an
  \<open>int\<close>; \<open>vel_x\<close> holds floats. The attribute \<open>sprint_decel_ratio\<close> is created and
  deleted at run time (\<open>hasattr\<close>/\<open>del\<close>): \<open>None\<close> is the absent attribute.
  \<open>was_sprinting_when_jumped\<close> is set in \<open>__init__\<close> and never deleted, so its
  \<open>hasattr\<close> test is always true. \<open>size\<close> is the constant pair \<open>(14, 19)\<close>.
\<close>

record knight =
  index :: int
  counter :: int
  world_rects :: "pg_rect list"
  idle_sheet :: surface
  run_sheet :: surface
  image :: sprite
  rect :: pg_rect
  vel_x :: real
  vel_y :: int
  sprinting :: bool
  moving :: bool
  jumped :: bool
  flipped :: bool
  was_sprinting_when_jumped :: bool
  sprint_decel_ratio :: "real option"

definition size_w :: int where
  "size_w = 14"

definition size_h :: int where
  "size_h = 19"

text \<open>
  \<open>animate\<close> (Knight.py, lines 180-207). \<open>%\<close> raises \<open>ZeroDivisionError\<close> for
  \<open>steps = 0\<close>; for every other \<open>steps\<close> Python's \<open>%\<close> on integers is \<open>mod\<close> on \<open>int\<close>
  (the result takes the sign of the divisor).
\<close>

definition animate :: "knight \<Rightarrow> surface \<Rightarrow> int \<Rightarrow> int \<Rightarrow> error + knight" where
  "animate s sprite_sheet steps anim_cooldown =
     (let s1 = s\<lparr>counter := counter s + 1\<rparr> in
      if counter s1 > anim_cooldown then
        (if steps = 0 then Inl ZeroDivisionError
         else
           (let s2 = s1\<lparr>counter := 0, index := (index s1 + 1) mod steps\<rparr> in
            case subsurface sprite_sheet (index s2 * size_w) 0 size_w size_h of
              Inl e \<Rightarrow> Inl e
            | Inr aux \<Rightarrow> Inr (s2\<lparr>image := \<lparr>area = aux, mirrored = flipped s2\<rparr>\<rparr>)))
      else Inr s1)"

text \<open>
  \<open>_move_x\<close> (lines 91-142), in the order of its blocks. \<open>sprint_phase\<close> is lines 93-120:
  it returns the state together with the local variables \<open>max_vel_x\<close> and \<open>increment\<close>
  as they stand after the grounded/airborne block. The only call passes
  \<open>max_vel_x = 7.5\<close> and \<open>sprint_max_mod = 1.7\<close>, so the divisor of line 100 is not zero.
\<close>

definition sprint_phase ::
    "knight \<Rightarrow> keys \<Rightarrow> real \<Rightarrow> real \<Rightarrow> real \<Rightarrow> real \<Rightarrow> knight \<times> real \<times> real" where
  "sprint_phase s key increment max_vel_x sprint_inc_mod sprint_max_mod =
     (let was_sprinting = sprinting s;
          s1 = s\<lparr>sprinting := K_LSHIFT key\<rparr>
      in if \<not> jumped s1 then
           (let s2 = (if was_sprinting \<and> \<not> sprinting s1
                      then s1\<lparr>sprint_decel_ratio :=
                                Some (\<bar>vel_x s1\<bar> / (max_vel_x * sprint_max_mod))\<rparr>
                      else s1)
            in if sprinting s2
               then (s2, max_vel_x * sprint_max_mod, increment * sprint_inc_mod)
               else (case sprint_decel_ratio s2 of
                       Some ratio \<Rightarrow>
                         (let decel_factor = 0.99;
                              current_target = max_vel_x * ratio
                          in if \<bar>vel_x s2\<bar> > current_target
                             then (s2\<lparr>vel_x := vel_x s2 * decel_factor,
                                      sprint_decel_ratio := Some (ratio * decel_factor)\<rparr>,
                                   max_vel_x, increment)
                             else (s2\<lparr>sprint_decel_ratio := None\<rparr>, max_vel_x, increment))
                     | None \<Rightarrow> (s2, max_vel_x, increment)))
         else if was_sprinting_when_jumped s1
              then (s1, max_vel_x * sprint_max_mod, increment * sprint_inc_mod)
              else (s1, max_vel_x, increment))"

text \<open>
  Lines 125-126 and 133-134: the target velocity is scaled by the ratio when the player is
  not sprinting, the attribute exists and the player is not airborne.
\<close>

definition scale_target :: "knight \<Rightarrow> real \<Rightarrow> real" where
  "scale_target s target_vel =
     (case sprint_decel_ratio s of
        Some ratio \<Rightarrow> if \<not> sprinting s \<and> \<not> jumped s then target_vel * ratio else target_vel
      | None \<Rightarrow> target_vel)"

text \<open>Lines 122-128 (left) and 130-136 (right).\<close>

definition move_left :: "knight \<Rightarrow> keys \<Rightarrow> real \<Rightarrow> real \<Rightarrow> knight" where
  "move_left s key max_vel_x increment =
     (if K_a key
      then s\<lparr>vel_x := max (scale_target s (- max_vel_x)) (vel_x s - increment), flipped := True\<rparr>
      else s)"

definition move_right :: "knight \<Rightarrow> keys \<Rightarrow> real \<Rightarrow> real \<Rightarrow> knight" where
  "move_right s key max_vel_x increment =
     (if K_d key
      then s\<lparr>vel_x := min (scale_target s max_vel_x) (vel_x s + increment), flipped := False\<rparr>
      else s)"

definition move_x :: "knight \<Rightarrow> keys \<Rightarrow> real \<Rightarrow> real \<Rightarrow> real \<Rightarrow> real \<Rightarrow> knight" where
  "move_x s key increment max_vel_x sprint_inc_mod sprint_max_mod =
     (case sprint_phase s key increment max_vel_x sprint_inc_mod sprint_max_mod of
        (s1, max_vel_x', increment') \<Rightarrow>
          (let s2 = move_left s1 key max_vel_x' increment';
               s3 = move_right s2 key max_vel_x' increment'
           in if K_SPACE key \<and> \<not> jumped s3
              then s3\<lparr>was_sprinting_when_jumped := sprinting s3\<rparr>
              else s3))"

text \<open>\<open>_apply_friction\<close> (lines 144-150).\<close>

definition apply_friction :: "knight \<Rightarrow> keys \<Rightarrow> real \<Rightarrow> knight" where
  "apply_friction s key amount =
     (if \<not> (K_a key \<or> K_d key) then
        (if vel_x s > 0 then s\<lparr>vel_x := max 0 (vel_x s - amount)\<rparr>
         else if vel_x s < 0 then s\<lparr>vel_x := min 0 (vel_x s + amount)\<rparr>
         else s)
      else s)"

text \<open>\<open>_handle_movement\<close> (lines 76-89).\<close>

definition handle_movement :: "knight \<Rightarrow> keys \<Rightarrow> knight" where
  "handle_movement s key =
     (let s1 = move_x s key 0.5 7.5 1.7 1.7;
          s2 = (if \<not> jumped s1 then apply_friction s1 key 1.3 else s1)
      in if K_SPACE key \<and> \<not> jumped s2
         then s2\<lparr>vel_y := - 20, jumped := True\<rparr>
         else s2)"

text \<open>\<open>_apply_gravity\<close> (lines 152-155); \<open>update\<close> calls it with the defaults 30 and 1.\<close>

definition apply_gravity :: "knight \<Rightarrow> int \<Rightarrow> int \<Rightarrow> knight" where
  "apply_gravity s terminal_velocity gravity =
     (if vel_y s < terminal_velocity then s\<lparr>vel_y := vel_y s + gravity\<rparr> else s)"

text \<open>
  \<open>_handle_collisions\<close> (lines 157-173). \<open>collide_tile\<close> is the body of the \<open>for\<close> loop
  for one tile; the loop runs it over \<open>world_rects\<close> from the first tile to the last.
\<close>

definition collide_tile :: "knight \<Rightarrow> pg_rect \<Rightarrow> knight" where
  "collide_tile s tile =
     (let s1 = (if colliderect4 tile (of_int (rx (rect s)) + vel_x s) (of_int (ry (rect s)))
                     (rw (rect s)) (rh (rect s))
                then (if vel_x s > 0
                      then s\<lparr>vel_x := of_int (rect_left tile - rect_right (rect s))\<rparr>
                      else if vel_x s < 0
                      then s\<lparr>vel_x := of_int (rect_right tile - rect_left (rect s))\<rparr>
                      else s)
                else s)
      in if colliderect4 tile (of_int (rx (rect s1))) (of_int (ry (rect s1) + vel_y s1))
              (rw (rect s1)) (rh (rect s1))
         then (if vel_y s1 > 0
               then s1\<lparr>vel_y := rect_top tile - rect_bottom (rect s1), jumped := False\<rparr>
               else if vel_y s1 < 0
               then s1\<lparr>vel_y := rect_bottom tile - rect_top (rect s1)\<rparr>
               else s1)
         else s1)"

primrec collide_tiles :: "knight \<Rightarrow> pg_rect list \<Rightarrow> knight" where
  "collide_tiles s [] = s"
| "collide_tiles s (tile # tiles) = collide_tiles (collide_tile s tile) tiles"

definition handle_collisions :: "knight \<Rightarrow> knight" where
  "handle_collisions s = collide_tiles s (world_rects s)"

text \<open>
  \<open>_clamp_position\<close> (lines 175-178). The float assigned to \<open>rect.x\<close> is rounded to an
  integer by the \<open>Rect\<close>; \<open>rect.y += vel_y\<close> adds two integers. Either assignment
  raises \<open>TypeError\<close> when the new coordinate does not fit a C integer.
\<close>

definition clamp_position :: "knight \<Rightarrow> real \<Rightarrow> error + knight" where
  "clamp_position s world_limit =
     (let new_x = pg_round (max 0 (min (of_int (rx (rect s)) + vel_x s)
                                       (world_limit - of_int (rw (rect s)))))
      in if \<not> in_c_int new_x then Inl TypeError
         else
           (let s1 = s\<lparr>rect := (rect s)\<lparr>rx := new_x\<rparr>\<rparr>;
                new_y = ry (rect s1) + vel_y s1
            in if \<not> in_c_int new_y then Inl TypeError
               else Inr (s1\<lparr>rect := (rect s1)\<lparr>ry := new_y\<rparr>\<rparr>)))"

text \<open>
  \<open>update\<close> (lines 49-74), without the final \<open>blit\<close>, which draws and changes no field.
\<close>

definition update :: "knight \<Rightarrow> keys \<Rightarrow> real \<Rightarrow> error + knight" where
  "update s key world_limit =
     (case (if K_a key \<or> K_d key then animate s (run_sheet s) 16 8
            else animate s (idle_sheet s) 4 10) of
        Inl e \<Rightarrow> Inl e
      | Inr s1 \<Rightarrow>
          clamp_position
            (handle_collisions (apply_gravity (handle_movement s1 key) 30 1))
            world_limit)"

text \<open>Consecutive frames: \<open>update\<close> once per key snapshot, stopping at the first error.\<close>

fun updates :: "knight \<Rightarrow> keys list \<Rightarrow> real \<Rightarrow> error + knight" where
  "updates s [] world_limit = Inr s"
| "updates s (key # ks) world_limit =
     (case update s key world_limit of
        Inl e \<Rightarrow> Inl e
      | Inr s' \<Rightarrow> updates s' ks world_limit)"

section \<open>The camera\<close>

text \<open>
  \<open>pygame.math.Vector2\<close> has two float components. \<open>offset\<close> only ever holds
  integer values (the result of \<open>int\<close>, then \<open>max\<close>/\<open>min\<close> with the integer borders the game
  passes), so its components are modelled as \<open>int\<close>. The camera keeps a reference to the
  player object; \<open>scroll\<close> reads the player's rectangle as it is at the time of the call, so
  the model passes that rectangle in.
\<close>

record camera =
  screen_width :: int
  screen_height :: int
  offset_x :: int
  offset_y :: int
  offset_float_x :: real
  offset_float_y :: real
  CONST_x :: real
  CONST_y :: real

text \<open>\<open>Camera.__init__\<close> (Camera.py, lines 9-26).\<close>

definition camera_init :: "pg_rect \<Rightarrow> int \<Rightarrow> int \<Rightarrow> camera" where
  "camera_init player_rect sw sh =
     \<lparr>screen_width = sw, screen_height = sh,
      offset_x = 0, offset_y = 0,
      offset_float_x = 0, offset_float_y = 0,
      CONST_x = - of_int sw / 2 + of_int (rx player_rect) / 4,
      CONST_y = - of_int (ry player_rect)\<rparr>"

text \<open>\<open>Camera.scroll\<close> (lines 28-48).\<close>

definition scroll :: "camera \<Rightarrow> pg_rect \<Rightarrow> int \<Rightarrow> int \<Rightarrow> int \<Rightarrow> int \<Rightarrow> camera" where
  "scroll c player_rect left_border right_border top_border bottom_border =
     (let target_x = of_int (rx player_rect) + CONST_x c;
          target_y = of_int (ry player_rect) + CONST_y c;
          c1 = c\<lparr>offset_float_x := offset_float_x c + (target_x - offset_float_x c) * 0.1\<rparr>;
          c2 = c1\<lparr>offset_float_y := offset_float_y c1 + (target_y - offset_float_y c1) * 0.1\<rparr>;
          c3 = c2\<lparr>offset_x := py_int (offset_float_x c2), offset_y := py_int (offset_float_y c2)\<rparr>;
          c4 = c3\<lparr>offset_x := max left_border (offset_x c3)\<rparr>;
          c5 = c4\<lparr>offset_x := min (offset_x c4) (right_border - screen_width c4)\<rparr>;
          c6 = c5\<lparr>offset_y := max top_border (offset_y c5)\<rparr>
      in c6\<lparr>offset_y := min (offset_y c6) (bottom_border - screen_height c6)\<rparr>)"

text \<open>
  The game loop (\<open>Game._update\<close> in main.py) calls \<open>scroll\<close> once per frame, after the
  player has moved. \<open>scrolls\<close> runs a sequence of such calls, each with the player's
  rectangle and the borders of that frame.
\<close>

fun scrolls :: "camera \<Rightarrow> (pg_rect \<times> int \<times> int \<times> int \<times> int) list \<Rightarrow> camera" where
  "scrolls c [] = c"
| "scrolls c ((player_rect, l, r, t, b) # calls) = scrolls (scroll c player_rect l r t b) calls"

section \<open>Concrete scenes\<close>

text \<open>
  Key snapshots and player states used to run the definitions on concrete inputs. The idle
  sheet holds 4 frames and the run sheet 16 frames of 14 by 19 pixels. The player's box is
  49 by 66 pixels.
\<close>

definition no_keys :: keys where
  "no_keys = \<lparr>K_a = False, K_d = False, K_SPACE = False, K_LSHIFT = False\<rparr>"

definition jump_key :: keys where
  "jump_key = \<lparr>K_a = False, K_d = False, K_SPACE = True, K_LSHIFT = False\<rparr>"

text \<open>At rest on a floor tile whose top edge is the bottom edge of the player's box.\<close>

definition standing_knight :: knight where
  "standing_knight =
     \<lparr>index = 0, counter = 0,
      world_rects = [\<lparr>rx = 0, ry = 100, rw = 1000, rh = 50\<rparr>],
      idle_sheet = \<lparr>surf_w = 56, surf_h = 19\<rparr>, run_sheet = \<lparr>surf_w = 224, surf_h = 19\<rparr>,
      image = \<lparr>area = \<lparr>rx = 0, ry = 0, rw = 14, rh = 19\<rparr>, mirrored = False\<rparr>,
      rect = \<lparr>rx = 100, ry = 34, rw = 49, rh = 66\<rparr>,
      vel_x = 0, vel_y = 0, sprinting = False, moving = False, jumped = False, flipped = False,
      was_sprinting_when_jumped = False, sprint_decel_ratio = None\<rparr>"

text \<open>
  On the same floor, running right at the sprint maximum \<open>7.5 * 1.7 = 12.75\<close> with the
  sprint key held on the previous frame.
\<close>

definition sprinting_knight :: knight where
  "sprinting_knight = standing_knight\<lparr>vel_x := 12.75, sprinting := True\<rparr>"

text \<open>
  Airborne after a jump, drifting right at 5 pixels per frame and falling at 5, above and to
  the left of the top-left corner of a single tile.
\<close>

definition corner_tile :: pg_rect where
  "corner_tile = \<lparr>rx = 52, ry = 70, rw = 50, rh = 50\<rparr>"

definition corner_knight :: knight where
  "corner_knight =
     \<lparr>index = 0, counter = 0,
      world_rects = [corner_tile],
      idle_sheet = \<lparr>surf_w = 56, surf_h = 19\<rparr>, run_sheet = \<lparr>surf_w = 224, surf_h = 19\<rparr>,
      image = \<lparr>area = \<lparr>rx = 0, ry = 0, rw = 14, rh = 19\<rparr>, mirrored = False\<rparr>,
      rect = \<lparr>rx = 0, ry = 0, rw = 49, rh = 66\<rparr>,
      vel_x = 5, vel_y = 5, sprinting = False, moving = False, jumped = True, flipped = False,
      was_sprinting_when_jumped = False, sprint_decel_ratio = None\<rparr>"



text \<open>
  Airborne, moving right at 10 and down at 3, with two walls ahead at different distances,
  a ledge just below and a tile far away.
\<close>

definition wall_far :: pg_rect where
  "wall_far = \<lparr>rx = 55, ry = 0, rw = 50, rh = 50\<rparr>"

definition ledge :: pg_rect where
  "ledge = \<lparr>rx = 0, ry = 68, rw = 40, rh = 50\<rparr>"

definition wall_near :: pg_rect where
  "wall_near = \<lparr>rx = 52, ry = 40, rw = 50, rh = 50\<rparr>"

definition far_tile :: pg_rect where
  "far_tile = \<lparr>rx = 500, ry = 500, rw = 50, rh = 50\<rparr>"

definition wall_knight :: knight where
  "wall_knight =
     \<lparr>index = 0, counter = 0,
      world_rects = [wall_far, ledge, wall_near, far_tile],
      idle_sheet = \<lparr>surf_w = 56, surf_h = 19\<rparr>, run_sheet = \<lparr>surf_w = 224, surf_h = 19\<rparr>,
      image = \<lparr>area = \<lparr>rx = 0, ry = 0, rw = 14, rh = 19\<rparr>, mirrored = False\<rparr>,
      rect = \<lparr>rx = 0, ry = 0, rw = 49, rh = 66\<rparr>,
      vel_x = 10, vel_y = 3, sprinting = False, moving = False, jumped = True, flipped = False,
      was_sprinting_when_jumped = False, sprint_decel_ratio = None\<rparr>"

text \<open>
  Next to a wall whose left edge is the right edge of the player's box, creeping right at
  0.6 pixels per frame.
\<close>

definition touching_wall :: pg_rect where
  "touching_wall = \<lparr>rx = 49, ry = 0, rw = 50, rh = 100\<rparr>"

definition wall_toucher :: knight where
  "wall_toucher = corner_knight\<lparr>world_rects := [touching_wall], vel_x := 0.6, vel_y := 0\<rparr>"

text \<open>
  On the floor with no key held: sliding right at 7.5 with a wall two pixels ahead; and
  sliding right at 5 while the box already reaches nine pixels into a wall.
\<close>

definition floor_tile :: pg_rect where
  "floor_tile = \<lparr>rx = 0, ry = 100, rw = 1000, rh = 50\<rparr>"

definition wall_runner :: knight where
  "wall_runner = standing_knight\<lparr>vel_x := 7.5,
     world_rects := [floor_tile, \<lparr>rx = 151, ry = 0, rw = 50, rh = 100\<rparr>]\<rparr>"

definition embedded_knight :: knight where
  "embedded_knight = standing_knight\<lparr>vel_x := 5,
     world_rects := [floor_tile, \<lparr>rx = 140, ry = 0, rw = 50, rh = 100\<rparr>]\<rparr>"

text \<open>Sliding at the sprint maximum close to the right end of a world 1000.6 wide.\<close>

definition edge_knight :: knight where
  "edge_knight = sprinting_knight\<lparr>rect := \<lparr>rx = 945, ry = 34, rw = 49, rh = 66\<rparr>\<rparr>"

text \<open>Walked off a ledge without jumping: nothing below, still moving right at 3.\<close>

definition ledge_walker :: knight where
  "ledge_walker = standing_knight\<lparr>world_rects := [], vel_x := 3\<rparr>"

text \<open>
  The frame on which the animation switches from the run cycle to the idle cycle: the
  index is the last run frame and the counter is at the idle hold.
\<close>

definition run_to_idle_knight :: knight where
  "run_to_idle_knight = standing_knight\<lparr>index := 15, counter := 10\<rparr>"

text \<open>
  The start of the game in main.py: a 900 by 700 window and the player created at
  \<open>(450, 700 - 230)\<close>.
\<close>

definition start_rect :: pg_rect where
  "start_rect = \<lparr>rx = 450, ry = 470, rw = 49, rh = 66\<rparr>"

definition start_camera :: camera where
  "start_camera = camera_init start_rect 900 700"

text \<open>
  Both sprite sheets are large enough for the frames the code cuts from them: 16 run
  frames and 4 idle frames, each \<open>size_w\<close> by \<open>size_h\<close>.
\<close>

definition sheets_fit :: "knight \<Rightarrow> bool" where
  "sheets_fit s \<longleftrightarrow> 16 * size_w \<le> surf_w (run_sheet s) \<and> size_h \<le> surf_h (run_sheet s)
                  \<and> 4 * size_w \<le> surf_w (idle_sheet s) \<and> size_h \<le> surf_h (idle_sheet s)"

section \<open>Basic facts\<close>

lemmas tile_defs = wall_far_def ledge_def wall_near_def far_tile_def touching_wall_def
  floor_tile_def

lemmas knight_defs = update_def animate_def subsurface_def size_w_def size_h_def
  handle_movement_def move_x_def sprint_phase_def scale_target_def move_left_def move_right_def
  apply_friction_def apply_gravity_def handle_collisions_def collide_tile_def
  colliderect4_def colliderect_def clamp_position_def py_int_def pg_round_def in_c_int_def
  rect_left_def rect_right_def rect_top_def rect_bottom_def Let_def

subsection \<open>Truncation\<close>

lemma py_int_nonneg: "0 \<le> v \<Longrightarrow> 0 \<le> py_int v"
  by (simp add: py_int_def)

lemma py_int_le: "0 \<le> v \<Longrightarrow> of_int (py_int v) \<le> v"
  by (simp add: py_int_def)

lemma py_int_toward_zero: "\<bar>of_int (py_int v)\<bar> \<le> \<bar>v\<bar> \<and> \<bar>v - of_int (py_int v)\<bar> < 1"
  unfolding py_int_def by (auto; linarith)

lemma pg_round_nonneg: "0 \<le> v \<Longrightarrow> 0 \<le> pg_round v"
  by (simp add: pg_round_def)

lemma pg_round_of_int: "pg_round (of_int n) = n"
  unfolding pg_round_def by (auto; linarith)

lemma pg_round_mono: "a \<le> b \<Longrightarrow> pg_round a \<le> pg_round b"
  unfolding pg_round_def by (auto intro!: floor_mono ceiling_mono; linarith)

lemma pg_round_near: "\<bar>of_int (pg_round v) - v\<bar> \<le> 1 / 2"
proof (cases "0 \<le> v")
  case True
  have "of_int \<lfloor>v + 1 / 2\<rfloor> \<le> v + 1 / 2" and "v + 1 / 2 < of_int \<lfloor>v + 1 / 2\<rfloor> + 1"
    by linarith+
  then show ?thesis unfolding pg_round_def if_P[OF True] by linarith
next
  case False
  have "v - 1 / 2 \<le> of_int \<lceil>v - 1 / 2\<rceil>" and "of_int \<lceil>v - 1 / 2\<rceil> < v - 1 / 2 + 1"
    by linarith+
  then show ?thesis unfolding pg_round_def if_not_P[OF False] by linarith
qed

lemma colliderect4_box_overlaps:
  assumes "0 < rw tile" and "0 < rh tile" and "0 < w" and "0 < h"
  shows "colliderect4 tile x y w h
           = box_overlaps tile (of_int (py_int x)) (of_int (py_int y)) w h"
  using assms
  by (auto simp: colliderect4_def colliderect_def box_overlaps_def rect_left_def rect_right_def
      rect_top_def rect_bottom_def)

subsection \<open>Fields each step leaves alone\<close>

lemma animate_frame:
  "animate s sh st cd = Inr s' \<Longrightarrow>
     rect s' = rect s \<and> vel_x s' = vel_x s \<and> vel_y s' = vel_y s
   \<and> jumped s' = jumped s \<and> sprinting s' = sprinting s
   \<and> sprint_decel_ratio s' = sprint_decel_ratio s
   \<and> was_sprinting_when_jumped s' = was_sprinting_when_jumped s
   \<and> world_rects s' = world_rects s
   \<and> idle_sheet s' = idle_sheet s \<and> run_sheet s' = run_sheet s"
  by (auto simp: animate_def Let_def split: if_splits sum.splits)

lemma sprint_phase_frame:
  "sprint_phase s key a b c d = (s1, mx, inc) \<Longrightarrow>
     rect s1 = rect s \<and> vel_y s1 = vel_y s \<and> jumped s1 = jumped s
   \<and> world_rects s1 = world_rects s
   \<and> idle_sheet s1 = idle_sheet s \<and> run_sheet s1 = run_sheet s
   \<and> sprinting s1 = K_LSHIFT key"
  by (auto simp: sprint_phase_def Let_def split: if_splits option.splits)

lemma move_left_frame:
  "rect (move_left s key mx inc) = rect s \<and> vel_y (move_left s key mx inc) = vel_y s
   \<and> jumped (move_left s key mx inc) = jumped s
   \<and> world_rects (move_left s key mx inc) = world_rects s
   \<and> idle_sheet (move_left s key mx inc) = idle_sheet s
   \<and> run_sheet (move_left s key mx inc) = run_sheet s
   \<and> sprinting (move_left s key mx inc) = sprinting s
   \<and> sprint_decel_ratio (move_left s key mx inc) = sprint_decel_ratio s
   \<and> was_sprinting_when_jumped (move_left s key mx inc) = was_sprinting_when_jumped s"
  by (simp add: move_left_def)

lemma move_right_frame:
  "rect (move_right s key mx inc) = rect s \<and> vel_y (move_right s key mx inc) = vel_y s
   \<and> jumped (move_right s key mx inc) = jumped s
   \<and> world_rects (move_right s key mx inc) = world_rects s
   \<and> idle_sheet (move_right s key mx inc) = idle_sheet s
   \<and> run_sheet (move_right s key mx inc) = run_sheet s
   \<and> sprinting (move_right s key mx inc) = sprinting s
   \<and> sprint_decel_ratio (move_right s key mx inc) = sprint_decel_ratio s
   \<and> was_sprinting_when_jumped (move_right s key mx inc) = was_sprinting_when_jumped s"
  by (simp add: move_right_def)

lemma move_x_frame:
  "rect (move_x s key a b c d) = rect s \<and> vel_y (move_x s key a b c d) = vel_y s
   \<and> jumped (move_x s key a b c d) = jumped s
   \<and> world_rects (move_x s key a b c d) = world_rects s
   \<and> idle_sheet (move_x s key a b c d) = idle_sheet s
   \<and> run_sheet (move_x s key a b c d) = run_sheet s"
proof -
  obtain s1 mx inc where sp: "sprint_phase s key a b c d = (s1, mx, inc)"
    by (cases "sprint_phase s key a b c d") auto
  show ?thesis
    using sprint_phase_frame[OF sp]
    by (simp add: move_x_def sp Let_def move_left_frame move_right_frame)
qed

lemma apply_friction_frame:
  "rect (apply_friction s key a) = rect s \<and> vel_y (apply_friction s key a) = vel_y s
   \<and> jumped (apply_friction s key a) = jumped s
   \<and> world_rects (apply_friction s key a) = world_rects s
   \<and> idle_sheet (apply_friction s key a) = idle_sheet s
   \<and> run_sheet (apply_friction s key a) = run_sheet s
   \<and> sprint_decel_ratio (apply_friction s key a) = sprint_decel_ratio s
   \<and> sprinting (apply_friction s key a) = sprinting s"
  by (simp add: apply_friction_def)

lemma handle_movement_frame:
  "rect (handle_movement s key) = rect s
   \<and> world_rects (handle_movement s key) = world_rects s
   \<and> idle_sheet (handle_movement s key) = idle_sheet s
   \<and> run_sheet (handle_movement s key) = run_sheet s"
  by (simp add: handle_movement_def Let_def move_x_frame apply_friction_frame)

lemma handle_movement_jump:
  "vel_y (handle_movement s key) = (if K_SPACE key \<and> \<not> jumped s then - 20 else vel_y s)
   \<and> jumped (handle_movement s key) = (K_SPACE key \<or> jumped s)"
  by (auto simp add: handle_movement_def Let_def move_x_frame apply_friction_frame)

lemma apply_gravity_frame:
  "rect (apply_gravity s t g) = rect s \<and> vel_x (apply_gravity s t g) = vel_x s
   \<and> jumped (apply_gravity s t g) = jumped s
   \<and> world_rects (apply_gravity s t g) = world_rects s
   \<and> idle_sheet (apply_gravity s t g) = idle_sheet s
   \<and> run_sheet (apply_gravity s t g) = run_sheet s"
  by (simp add: apply_gravity_def)

lemma clamp_position_fields:
  "clamp_position s L = Inr s' \<Longrightarrow>
     vel_x s' = vel_x s \<and> vel_y s' = vel_y s
   \<and> rw (rect s') = rw (rect s) \<and> rh (rect s') = rh (rect s)
   \<and> ry (rect s') = ry (rect s) + vel_y s
   \<and> rx (rect s')
       = pg_round (max 0 (min (of_int (rx (rect s)) + vel_x s) (L - of_int (rw (rect s)))))
   \<and> in_c_int (rx (rect s')) \<and> in_c_int (ry (rect s'))
   \<and> jumped s' = jumped s \<and> sprinting s' = sprinting s
   \<and> sprint_decel_ratio s' = sprint_decel_ratio s
   \<and> world_rects s' = world_rects s
   \<and> idle_sheet s' = idle_sheet s \<and> run_sheet s' = run_sheet s
   \<and> index s' = index s \<and> counter s' = counter s \<and> image s' = image s"
  by (auto simp: clamp_position_def Let_def split: if_splits)

lemma clamp_position_cases:
  "clamp_position s L = Inl TypeError \<or> (\<exists>s'. clamp_position s L = Inr s')"
  by (simp add: clamp_position_def Let_def)

subsection \<open>One tile, then the loop over the tiles\<close>

lemma collide_tile_rect: "rect (collide_tile s t) = rect s"
  by (simp add: collide_tile_def Let_def)

lemma collide_tile_sheets:
  "world_rects (collide_tile s t) = world_rects s
   \<and> idle_sheet (collide_tile s t) = idle_sheet s \<and> run_sheet (collide_tile s t) = run_sheet s"
  by (simp add: collide_tile_def Let_def)

lemma collide_tile_vel_x:
  "vel_x (collide_tile s t) =
     (if colliderect4 t (of_int (rx (rect s)) + vel_x s) (of_int (ry (rect s)))
           (rw (rect s)) (rh (rect s))
      then (if vel_x s > 0 then of_int (rect_left t - rect_right (rect s))
            else if vel_x s < 0 then of_int (rect_right t - rect_left (rect s))
            else vel_x s)
      else vel_x s)"
  by (simp add: collide_tile_def Let_def)

lemma collide_tile_vel_y:
  "vel_y (collide_tile s t) =
     (if colliderect4 t (of_int (rx (rect s))) (of_int (ry (rect s) + vel_y s))
           (rw (rect s)) (rh (rect s))
      then (if vel_y s > 0 then rect_top t - rect_bottom (rect s)
            else if vel_y s < 0 then rect_bottom t - rect_top (rect s)
            else vel_y s)
      else vel_y s)"
  by (simp add: collide_tile_def Let_def)

lemma collide_tile_jumped:
  "jumped (collide_tile s t) =
     (if colliderect4 t (of_int (rx (rect s))) (of_int (ry (rect s) + vel_y s))
           (rw (rect s)) (rh (rect s)) \<and> vel_y s > 0
      then False else jumped s)"
  by (simp add: collide_tile_def Let_def)

lemma collide_tiles_rect: "rect (collide_tiles s ts) = rect s"
  by (induction ts arbitrary: s) (simp_all add: collide_tile_rect)

lemma collide_tiles_sheets:
  "world_rects (collide_tiles s ts) = world_rects s
   \<and> idle_sheet (collide_tiles s ts) = idle_sheet s
   \<and> run_sheet (collide_tiles s ts) = run_sheet s"
  by (induction ts arbitrary: s) (simp_all add: collide_tile_sheets)

lemma collide_tiles_append:
  "collide_tiles s (xs @ ys) = collide_tiles (collide_tiles s xs) ys"
  by (induction xs arbitrary: s) simp_all

lemma collide_tiles_keep_vel_x:
  "\<forall>u\<in>set ts. vel_x s = 0
       \<or> \<not> colliderect4 u (of_int (rx (rect s)) + vel_x s) (of_int (ry (rect s)))
              (rw (rect s)) (rh (rect s))
   \<Longrightarrow> vel_x (collide_tiles s ts) = vel_x s"
proof (induction ts arbitrary: s)
  case Nil
  show ?case by simp
next
  case (Cons u ts)
  have vx: "vel_x (collide_tile s u) = vel_x s"
    using Cons.prems by (auto simp: collide_tile_vel_x)
  have "vel_x (collide_tiles (collide_tile s u) ts) = vel_x (collide_tile s u)"
    by (rule Cons.IH) (use Cons.prems in \<open>auto simp: vx collide_tile_rect\<close>)
  then show ?case by (simp add: vx)
qed

lemma collide_tiles_keep_vel_y:
  "\<forall>u\<in>set ts. vel_y s = 0
       \<or> \<not> colliderect4 u (of_int (rx (rect s))) (of_int (ry (rect s) + vel_y s))
              (rw (rect s)) (rh (rect s))
   \<Longrightarrow> vel_y (collide_tiles s ts) = vel_y s \<and> jumped (collide_tiles s ts) = jumped s"
proof (induction ts arbitrary: s)
  case Nil
  show ?case by simp
next
  case (Cons u ts)
  have vy: "vel_y (collide_tile s u) = vel_y s"
    using Cons.prems by (auto simp: collide_tile_vel_y)
  have j: "jumped (collide_tile s u) = jumped s"
    using Cons.prems by (auto simp: collide_tile_jumped)
  have "vel_y (collide_tiles (collide_tile s u) ts) = vel_y (collide_tile s u)
      \<and> jumped (collide_tiles (collide_tile s u) ts) = jumped (collide_tile s u)"
    by (rule Cons.IH) (use Cons.prems in \<open>auto simp: vy collide_tile_rect\<close>)
  then show ?case by (simp add: vy j)
qed

subsection \<open>A frame that returns\<close>

lemma update_InrD:
  assumes "update s key L = Inr s'"
  obtains s1 where
    "animate s (if K_a key \<or> K_d key then run_sheet s else idle_sheet s)
       (if K_a key \<or> K_d key then 16 else 4) (if K_a key \<or> K_d key then 8 else 10) = Inr s1"
    and "clamp_position (handle_collisions (apply_gravity (handle_movement s1 key) 30 1)) L = Inr s'"
  using assms by (auto simp: update_def split: sum.splits if_splits)

lemma update_position:
  assumes "update s key L = Inr s'"
  shows "rx (rect s')
           = pg_round (max 0 (min (of_int (rx (rect s)) + vel_x s') (L - of_int (rw (rect s)))))
       \<and> ry (rect s') = ry (rect s) + vel_y s'
       \<and> rw (rect s') = rw (rect s) \<and> rh (rect s') = rh (rect s)
       \<and> in_c_int (rx (rect s')) \<and> in_c_int (ry (rect s'))"
proof -
  from assms obtain s1 where
    a: "animate s (if K_a key \<or> K_d key then run_sheet s else idle_sheet s)
          (if K_a key \<or> K_d key then 16 else 4) (if K_a key \<or> K_d key then 8 else 10) = Inr s1"
    and s': "clamp_position (handle_collisions (apply_gravity (handle_movement s1 key) 30 1)) L = Inr s'"
    by (rule update_InrD)
  from a have r1: "rect s1 = rect s" by (simp add: animate_frame)
  have "rect (handle_collisions (apply_gravity (handle_movement s1 key) 30 1)) = rect s"
    by (simp add: handle_collisions_def collide_tiles_rect apply_gravity_frame
        handle_movement_frame r1)
  with clamp_position_fields[OF s'] show ?thesis by auto
qed

lemma update_vel_y_no_hit:
  assumes u: "update s key L = Inr s'"
      and v: "v = (if K_SPACE key \<and> \<not> jumped s then - 19
                   else if vel_y s < 30 then vel_y s + 1 else vel_y s)"
      and nohit: "\<forall>t\<in>set (world_rects s). v = 0
                     \<or> \<not> colliderect4 t (of_int (rx (rect s))) (of_int (ry (rect s) + v))
                            (rw (rect s)) (rh (rect s))"
    shows "vel_y s' = v \<and> jumped s' = (K_SPACE key \<or> jumped s)"
proof -
  from u obtain s1 where
    a: "animate s (if K_a key \<or> K_d key then run_sheet s else idle_sheet s)
          (if K_a key \<or> K_d key then 16 else 4) (if K_a key \<or> K_d key then 8 else 10) = Inr s1"
    and s': "clamp_position (handle_collisions (apply_gravity (handle_movement s1 key) 30 1)) L = Inr s'"
    by (rule update_InrD)
  note f = animate_frame[OF a]
  let ?g = "apply_gravity (handle_movement s1 key) 30 1"
  have gv: "vel_y ?g = v"
    using f by (simp add: apply_gravity_def handle_movement_jump v)
  have gr: "rect ?g = rect s"
    using f by (simp add: apply_gravity_frame handle_movement_frame)
  have gw: "world_rects ?g = world_rects s"
    using f by (simp add: apply_gravity_frame handle_movement_frame)
  have gj: "jumped ?g = (K_SPACE key \<or> jumped s)"
    using f by (simp add: apply_gravity_frame handle_movement_jump)
  have "vel_y (collide_tiles ?g (world_rects ?g)) = vel_y ?g
      \<and> jumped (collide_tiles ?g (world_rects ?g)) = jumped ?g"
    by (rule collide_tiles_keep_vel_y) (use nohit in \<open>simp add: gv gr gw\<close>)
  then show ?thesis
    using clamp_position_fields[OF s'] by (simp add: handle_collisions_def gv gj)
qed

subsection \<open>Horizontal velocity on the ground\<close>

lemma sprint_phase_ground_vel_x:
  assumes "\<not> jumped s"
  shows "vel_x (fst (sprint_phase s key inc mx im mm)) =
           (if K_LSHIFT key then vel_x s
            else case (if sprinting s then Some (\<bar>vel_x s\<bar> / (mx * mm)) else sprint_decel_ratio s) of
                   None \<Rightarrow> vel_x s
                 | Some r \<Rightarrow> if \<bar>vel_x s\<bar> > mx * r then vel_x s * 0.99 else vel_x s)"
  using assms by (simp add: sprint_phase_def Let_def split: option.splits)

lemma sprint_phase_ground_ratio:
  assumes "\<not> jumped s"
  shows "sprint_decel_ratio (fst (sprint_phase s key inc mx im mm)) =
           (if K_LSHIFT key then sprint_decel_ratio s
            else case (if sprinting s then Some (\<bar>vel_x s\<bar> / (mx * mm)) else sprint_decel_ratio s) of
                   None \<Rightarrow> None
                 | Some r \<Rightarrow> if \<bar>vel_x s\<bar> > mx * r then Some (r * 0.99) else None)"
  using assms by (simp add: sprint_phase_def Let_def split: option.splits)

lemma move_x_ratio:
  "sprint_decel_ratio (move_x s key inc mx im mm) = sprint_decel_ratio (fst (sprint_phase s key inc mx im mm))"
  by (cases "sprint_phase s key inc mx im mm")
     (simp add: move_x_def Let_def move_left_frame move_right_frame)

lemma move_x_vel_x_no_keys:
  "\<not> K_a key \<Longrightarrow> \<not> K_d key \<Longrightarrow>
     vel_x (move_x s key inc mx im mm) = vel_x (fst (sprint_phase s key inc mx im mm))"
  by (cases "sprint_phase s key inc mx im mm")
     (simp add: move_x_def Let_def move_left_def move_right_def)

lemma handle_movement_vel_x_ground:
  assumes "\<not> jumped s"
  shows "vel_x (handle_movement s key) = vel_x (apply_friction (move_x s key 0.5 7.5 1.7 1.7) key 1.3)"
  using assms by (simp add: handle_movement_def Let_def move_x_frame)

lemma apply_friction_vel_x:
  "\<not> K_a key \<Longrightarrow> \<not> K_d key \<Longrightarrow>
   vel_x (apply_friction s key a) =
     (if vel_x s > 0 then max 0 (vel_x s - a) else if vel_x s < 0 then min 0 (vel_x s + a) else vel_x s)"
  by (simp add: apply_friction_def)

lemma sprint_phase_ground_params:
  "\<not> jumped s \<Longrightarrow>
     snd (sprint_phase s key inc mx im mm) = (if K_LSHIFT key then (mx * mm, inc * im) else (mx, inc))"
  by (simp add: sprint_phase_def Let_def split: option.splits)

lemma handle_movement_ratio:
  "sprint_decel_ratio (handle_movement s key) = sprint_decel_ratio (move_x s key 0.5 7.5 1.7 1.7)"
  by (simp add: handle_movement_def Let_def apply_friction_frame)

lemma handle_movement_vel_x_idle:
  assumes "\<not> K_a key" and "\<not> K_d key" and "\<not> jumped s"
  shows "vel_x (handle_movement s key) =
           (if vel_x (fst (sprint_phase s key 0.5 7.5 1.7 1.7)) > 0
            then max 0 (vel_x (fst (sprint_phase s key 0.5 7.5 1.7 1.7)) - 1.3)
            else if vel_x (fst (sprint_phase s key 0.5 7.5 1.7 1.7)) < 0
            then min 0 (vel_x (fst (sprint_phase s key 0.5 7.5 1.7 1.7)) + 1.3)
            else vel_x (fst (sprint_phase s key 0.5 7.5 1.7 1.7)))"
  using assms
  by (simp add: handle_movement_vel_x_ground apply_friction_vel_x move_x_vel_x_no_keys)

lemma update_vel_x_no_hit:
  assumes u: "update s key L = Inr s'"
      and keys: "\<not> K_a key" "\<not> K_d key" and grounded: "\<not> jumped s"
      and nohit: "\<forall>t\<in>set (world_rects s). vel_x (handle_movement s key) = 0
                     \<or> \<not> colliderect4 t (of_int (rx (rect s)) + vel_x (handle_movement s key))
                            (of_int (ry (rect s))) (rw (rect s)) (rh (rect s))"
    shows "vel_x s' = vel_x (handle_movement s key)"
proof -
  from u obtain s1 where
    a: "animate s (if K_a key \<or> K_d key then run_sheet s else idle_sheet s)
          (if K_a key \<or> K_d key then 16 else 4) (if K_a key \<or> K_d key then 8 else 10) = Inr s1"
    and s': "clamp_position (handle_collisions (apply_gravity (handle_movement s1 key) 30 1)) L = Inr s'"
    by (rule update_InrD)
  note f = animate_frame[OF a]
  have g1: "\<not> jumped s1" using f grounded by simp
  have hv: "vel_x (handle_movement s1 key) = vel_x (handle_movement s key)"
    using f
    by (simp add: handle_movement_vel_x_idle[OF keys g1] handle_movement_vel_x_idle[OF keys grounded]
        sprint_phase_ground_vel_x[OF g1] sprint_phase_ground_vel_x[OF grounded]
        split: option.splits)
  let ?g = "apply_gravity (handle_movement s1 key) 30 1"
  have gv: "vel_x ?g = vel_x (handle_movement s key)"
    by (simp add: apply_gravity_frame hv)
  have gr: "rect ?g = rect s"
    using f by (simp add: apply_gravity_frame handle_movement_frame)
  have gw: "world_rects ?g = world_rects s"
    using f by (simp add: apply_gravity_frame handle_movement_frame)
  have "vel_x (collide_tiles ?g (world_rects ?g)) = vel_x ?g"
    by (rule collide_tiles_keep_vel_x) (use nohit in \<open>simp add: gv gr gw\<close>)
  then show ?thesis
    using clamp_position_fields[OF s'] by (simp add: handle_collisions_def gv)
qed

subsection \<open>The airborne flag\<close>

lemma collide_tiles_jumped_mono: "jumped (collide_tiles s ts) \<Longrightarrow> jumped s"
proof (induction ts arbitrary: s)
  case Nil
  then show ?case by simp
next
  case (Cons u ts)
  from Cons.prems have "jumped (collide_tile s u)" by (auto dest: Cons.IH)
  then show ?case by (simp add: collide_tile_jumped split: if_splits)
qed

lemma update_jumped:
  assumes "update s key L = Inr s'" and "jumped s'"
  shows "jumped s \<or> K_SPACE key"
proof -
  from assms(1) obtain s1 where
    a: "animate s (if K_a key \<or> K_d key then run_sheet s else idle_sheet s)
          (if K_a key \<or> K_d key then 16 else 4) (if K_a key \<or> K_d key then 8 else 10) = Inr s1"
    and s': "clamp_position (handle_collisions (apply_gravity (handle_movement s1 key) 30 1)) L = Inr s'"
    by (rule update_InrD)
  from assms(2) have "jumped (collide_tiles (apply_gravity (handle_movement s1 key) 30 1)
      (world_rects (apply_gravity (handle_movement s1 key) 30 1)))"
    using clamp_position_fields[OF s'] by (simp add: handle_collisions_def)
  then have "jumped (apply_gravity (handle_movement s1 key) 30 1)"
    by (rule collide_tiles_jumped_mono)
  then show ?thesis
    using animate_frame[OF a] by (auto simp: apply_gravity_frame handle_movement_jump)
qed

lemma updates_stay_grounded:
  "updates s ks L = Inr s' \<Longrightarrow> \<not> jumped s \<Longrightarrow> \<forall>k\<in>set ks. \<not> K_SPACE k \<Longrightarrow> \<not> jumped s'"
proof (induction ks arbitrary: s)
  case Nil
  then show ?case by simp
next
  case (Cons k ks)
  from Cons.prems(1) obtain s1 where u: "update s k L = Inr s1" and r: "updates s1 ks L = Inr s'"
    by (auto split: sum.splits)
  have "\<not> jumped s1" using update_jumped[OF u] Cons.prems(2,3) by auto
  then show ?case using Cons.IH[OF r] Cons.prems(3) by simp
qed

subsection \<open>Animation fields\<close>

lemma sprint_phase_anim:
  "sprint_phase s key a b c d = (s1, mx, inc) \<Longrightarrow>
     index s1 = index s \<and> counter s1 = counter s \<and> image s1 = image s"
  by (auto simp: sprint_phase_def Let_def split: if_splits option.splits)

lemma move_x_anim:
  "index (move_x s key a b c d) = index s \<and> counter (move_x s key a b c d) = counter s
   \<and> image (move_x s key a b c d) = image s"
proof -
  obtain s1 mx inc where sp: "sprint_phase s key a b c d = (s1, mx, inc)"
    by (cases "sprint_phase s key a b c d") auto
  show ?thesis
    using sprint_phase_anim[OF sp]
    by (simp add: move_x_def sp Let_def move_left_def move_right_def)
qed

lemma handle_movement_anim:
  "index (handle_movement s key) = index s \<and> counter (handle_movement s key) = counter s
   \<and> image (handle_movement s key) = image s"
  by (simp add: handle_movement_def Let_def move_x_anim apply_friction_def)

lemma collide_tile_anim:
  "index (collide_tile s t) = index s \<and> counter (collide_tile s t) = counter s
   \<and> image (collide_tile s t) = image s"
  by (simp add: collide_tile_def Let_def)

lemma collide_tiles_anim:
  "index (collide_tiles s ts) = index s \<and> counter (collide_tiles s ts) = counter s
   \<and> image (collide_tiles s ts) = image s"
  by (induction ts arbitrary: s) (simp_all add: collide_tile_anim)

lemma physics_anim:
  "index (handle_collisions (apply_gravity (handle_movement s key) 30 1)) = index s
   \<and> counter (handle_collisions (apply_gravity (handle_movement s key) 30 1)) = counter s
   \<and> image (handle_collisions (apply_gravity (handle_movement s key) 30 1)) = image s"
  by (simp add: handle_collisions_def collide_tiles_anim apply_gravity_def handle_movement_anim)

lemma physics_sheets:
  "idle_sheet (handle_collisions (apply_gravity (handle_movement s key) 30 1)) = idle_sheet s
   \<and> run_sheet (handle_collisions (apply_gravity (handle_movement s key) 30 1)) = run_sheet s"
  by (simp add: handle_collisions_def collide_tiles_sheets apply_gravity_frame
      handle_movement_frame)

lemma animate_in_sheet:
  assumes "0 < steps" and "steps * size_w \<le> surf_w sheet" and "size_h \<le> surf_h sheet"
  shows "animate s sheet steps cd =
           Inr (if counter s + 1 > cd
                then s\<lparr>counter := 0, index := (index s + 1) mod steps,
                       image := \<lparr>area = \<lparr>rx = (index s + 1) mod steps * size_w, ry = 0,
                                         rw = size_w, rh = size_h\<rparr>,
                                 mirrored = flipped s\<rparr>\<rparr>
                else s\<lparr>counter := counter s + 1\<rparr>)"
proof -
  let ?m = "(index s + 1) mod steps"
  have lt: "?m < steps" using assms(1) by simp
  have m: "0 \<le> ?m" "?m + 1 \<le> steps"
    using assms(1) lt by (simp, linarith)
  have "?m * size_w + size_w = (?m + 1) * size_w" by (simp add: algebra_simps)
  also have "\<dots> \<le> steps * size_w" using m(2) by (intro mult_right_mono) (simp_all add: size_w_def)
  finally have "?m * size_w + size_w \<le> surf_w sheet" using assms(2) by simp
  moreover have "0 \<le> ?m * size_w" using m(1) by (simp add: size_w_def)
  ultimately show ?thesis
    using assms(1,3) by (simp add: animate_def Let_def subsurface_def)
qed

lemma update_after_animate:
  assumes "animate s (if K_a key \<or> K_d key then run_sheet s else idle_sheet s)
             (if K_a key \<or> K_d key then 16 else 4) (if K_a key \<or> K_d key then 8 else 10) = Inr a"
  shows "update s key L = Inl TypeError
       \<or> (\<exists>s'. update s key L = Inr s' \<and> index s' = index a \<and> image s' = image a
              \<and> idle_sheet s' = idle_sheet a \<and> run_sheet s' = run_sheet a)"
proof -
  let ?g = "handle_collisions (apply_gravity (handle_movement a key) 30 1)"
  have u: "update s key L = clamp_position ?g L"
    using assms by (cases "K_a key \<or> K_d key") (simp_all add: update_def)
  from clamp_position_cases[of ?g L] show ?thesis
  proof
    assume "clamp_position ?g L = Inl TypeError"
    then show ?thesis by (simp add: u)
  next
    assume "\<exists>s'. clamp_position ?g L = Inr s'"
    then obtain s' where c: "clamp_position ?g L = Inr s'" by blast
    from clamp_position_fields[OF c] have "index s' = index a \<and> image s' = image a
        \<and> idle_sheet s' = idle_sheet a \<and> run_sheet s' = run_sheet a"
      by (simp add: physics_anim physics_sheets)
    then show ?thesis by (simp add: u c)
  qed
qed

lemma animate_in_cycle:
  assumes "sheets_fit s"
  shows "\<exists>a. animate s (if K_a key \<or> K_d key then run_sheet s else idle_sheet s)
               (if K_a key \<or> K_d key then 16 else 4) (if K_a key \<or> K_d key then 8 else 10) = Inr a
          \<and> sheets_fit a
          \<and> (if counter s + 1 > (if K_a key \<or> K_d key then 8 else 10)
             then index a = (index s + 1) mod (if K_a key \<or> K_d key then 16 else 4)
                \<and> area (image a) = \<lparr>rx = index a * size_w, ry = 0, rw = size_w, rh = size_h\<rparr>
             else index a = index s \<and> image a = image s)"
proof (cases "K_a key \<or> K_d key")
  case True
  have "animate s (run_sheet s) 16 8 =
           Inr (if counter s + 1 > 8
                then s\<lparr>counter := 0, index := (index s + 1) mod 16,
                       image := \<lparr>area = \<lparr>rx = (index s + 1) mod 16 * size_w, ry = 0,
                                         rw = size_w, rh = size_h\<rparr>,
                                 mirrored = flipped s\<rparr>\<rparr>
                else s\<lparr>counter := counter s + 1\<rparr>)"
    using assms by (intro animate_in_sheet) (simp_all add: sheets_fit_def)
  then show ?thesis
    using True assms by (simp add: sheets_fit_def)
next
  case False
  have "animate s (idle_sheet s) 4 10 =
           Inr (if counter s + 1 > 10
                then s\<lparr>counter := 0, index := (index s + 1) mod 4,
                       image := \<lparr>area = \<lparr>rx = (index s + 1) mod 4 * size_w, ry = 0,
                                         rw = size_w, rh = size_h\<rparr>,
                                 mirrored = flipped s\<rparr>\<rparr>
                else s\<lparr>counter := counter s + 1\<rparr>)"
    using assms by (intro animate_in_sheet) (simp_all add: sheets_fit_def)
  then show ?thesis
    using False assms by (simp add: sheets_fit_def)
qed

lemma update_keeps_sheets_fit:
  assumes "sheets_fit s"
  shows "update s key L = Inl TypeError \<or> (\<exists>s'. update s key L = Inr s' \<and> sheets_fit s')"
proof -
  from animate_in_cycle[OF assms, of key] obtain a where
    a: "animate s (if K_a key \<or> K_d key then run_sheet s else idle_sheet s)
          (if K_a key \<or> K_d key then 16 else 4) (if K_a key \<or> K_d key then 8 else 10) = Inr a"
    and f: "sheets_fit a" by blast
  from update_after_animate[OF a, of L] f show ?thesis
    by (auto simp: sheets_fit_def)
qed

lemma updates_return:
  "sheets_fit s \<Longrightarrow>
     updates s ks L = Inl TypeError \<or> (\<exists>s'. updates s ks L = Inr s' \<and> sheets_fit s')"
proof (induction ks arbitrary: s)
  case Nil
  then show ?case by simp
next
  case (Cons k ks)
  from update_keeps_sheets_fit[OF Cons.prems, of k L] show ?case
  proof
    assume "update s k L = Inl TypeError"
    then show ?thesis by simp
  next
    assume "\<exists>s'. update s k L = Inr s' \<and> sheets_fit s'"
    then obtain s1 where u: "update s k L = Inr s1" and f: "sheets_fit s1" by blast
    from Cons.IH[OF f] show ?thesis by (simp add: u)
  qed
qed

subsection \<open>The camera constant\<close>

lemma scroll_CONST:
  "CONST_x (scroll c p l r t b) = CONST_x c \<and> CONST_y (scroll c p l r t b) = CONST_y c
   \<and> screen_width (scroll c p l r t b) = screen_width c
   \<and> screen_height (scroll c p l r t b) = screen_height c"
  by (simp add: scroll_def Let_def)

lemma scrolls_CONST:
  "CONST_x (scrolls c calls) = CONST_x c \<and> CONST_y (scrolls c calls) = CONST_y c"
  by (induction c calls rule: scrolls.induct) (simp_all add: scroll_CONST)

section \<open>Collision resolution and overlap\<close>

text \<open>
  Claim C1. After a frame the player's box should overlap no tile. The resolution tests
  the box moved along x alone and the box moved along y alone, and then moves it along
  both. In \<open>corner_knight\<close> the box does not overlap the tile before the frame, neither
  single-axis test collides, no velocity is clamped, and the box moved by \<open>(5, 6)\<close> overlaps
  the tile.
\<close>

theorem update_corner_overlap:
  "\<not> colliderect corner_tile (rect corner_knight)
   \<and> update corner_knight no_keys 1000
       = Inr (corner_knight\<lparr>counter := 1, vel_y := 6,
                rect := \<lparr>rx = 5, ry = 6, rw = 49, rh = 66\<rparr>\<rparr>)
   \<and> colliderect corner_tile \<lparr>rx = 5, ry = 6, rw = 49, rh = 66\<rparr>"
  by (simp add: knight_defs corner_knight_def corner_tile_def no_keys_def)

section \<open>Jumping and gravity\<close>

text \<open>
  Claim C2, as amended. When the jump key is down and \<open>jumped\<close> is false,
  \<open>_handle_movement\<close> sets \<open>vel_y\<close> to \<open>-20\<close> and sets \<open>jumped\<close>; gravity runs later in
  the same frame, so with no tile hit by the box moved up by 19 the frame ends with
  \<open>vel_y = -19\<close>, and the next frame, again with no tile hit, ends with \<open>vel_y = -18\<close>.
\<close>

theorem jump_then_gravity:
  assumes space: "K_SPACE key" and grounded: "\<not> jumped s"
      and tick1: "update s key L = Inr s1"
      and clear1: "\<forall>t\<in>set (world_rects s).
                     \<not> colliderect4 t (of_int (rx (rect s))) (of_int (ry (rect s) + (- 19)))
                          (rw (rect s)) (rh (rect s))"
      and tick2: "update s1 key' L = Inr s2"
      and clear2: "\<forall>t\<in>set (world_rects s1).
                     \<not> colliderect4 t (of_int (rx (rect s1))) (of_int (ry (rect s1) + (- 18)))
                          (rw (rect s1)) (rh (rect s1))"
    shows "vel_y (handle_movement s key) = - 20 \<and> jumped (handle_movement s key)
         \<and> vel_y (apply_gravity (handle_movement s key) 30 1) = - 19
         \<and> vel_y s1 = - 19 \<and> jumped s1
         \<and> vel_y s2 = - 18 \<and> jumped s2"
proof -
  have a: "vel_y (handle_movement s key) = - 20 \<and> jumped (handle_movement s key)"
    using space grounded by (simp add: handle_movement_jump)
  then have b: "vel_y (apply_gravity (handle_movement s key) 30 1) = - 19"
    by (simp add: apply_gravity_def)
  have c: "vel_y s1 = - 19 \<and> jumped s1"
    using update_vel_y_no_hit[OF tick1, of "- 19"] space grounded clear1 by simp
  have d: "vel_y s2 = - 18 \<and> jumped s2"
    using update_vel_y_no_hit[OF tick2, of "- 18"] c clear2 by simp
  from a b c d show ?thesis by simp
qed

theorem jump_then_gravity_witness:
  "K_SPACE jump_key \<and> \<not> jumped standing_knight
   \<and> vel_y (handle_movement standing_knight jump_key) = - 20
   \<and> jumped (handle_movement standing_knight jump_key)
   \<and> update standing_knight jump_key 1000
       = Inr (standing_knight\<lparr>counter := 1, vel_y := - 19, jumped := True,
                rect := \<lparr>rx = 100, ry = 15, rw = 49, rh = 66\<rparr>\<rparr>)
   \<and> update (standing_knight\<lparr>counter := 1, vel_y := - 19, jumped := True,
                rect := \<lparr>rx = 100, ry = 15, rw = 49, rh = 66\<rparr>\<rparr>) no_keys 1000
       = Inr (standing_knight\<lparr>counter := 2, vel_y := - 18, jumped := True,
                rect := \<lparr>rx = 100, ry = - 3, rw = 49, rh = 66\<rparr>\<rparr>)"
proof -
  let ?s1 = "standing_knight\<lparr>counter := 1, vel_y := - 19, jumped := True,
                rect := \<lparr>rx = 100, ry = 15, rw = 49, rh = 66\<rparr>\<rparr>"
  let ?s2 = "standing_knight\<lparr>counter := 2, vel_y := - 18, jumped := True,
                rect := \<lparr>rx = 100, ry = - 3, rw = 49, rh = 66\<rparr>\<rparr>"
  have k: "K_SPACE jump_key" and g: "\<not> jumped standing_knight"
    by (simp_all add: jump_key_def standing_knight_def)
  have t1: "update standing_knight jump_key 1000 = Inr ?s1"
    by (simp add: knight_defs standing_knight_def jump_key_def)
  have t2: "update ?s1 no_keys 1000 = Inr ?s2"
    by (simp add: knight_defs standing_knight_def no_keys_def)
  have c1: "\<forall>t\<in>set (world_rects standing_knight).
              \<not> colliderect4 t (of_int (rx (rect standing_knight)))
                   (of_int (ry (rect standing_knight) + (- 19)))
                   (rw (rect standing_knight)) (rh (rect standing_knight))"
    by (simp add: standing_knight_def colliderect4_def colliderect_def py_int_def)
  have c2: "\<forall>t\<in>set (world_rects ?s1).
              \<not> colliderect4 t (of_int (rx (rect ?s1))) (of_int (ry (rect ?s1) + (- 18)))
                   (rw (rect ?s1)) (rh (rect ?s1))"
    by (simp add: standing_knight_def colliderect4_def colliderect_def py_int_def)
  from jump_then_gravity[OF k g t1 c1 t2 c2] k g t1 t2 show ?thesis by simp
qed

text \<open>
  The claim as stated (\<open>-20\<close> at the end of the jump frame, \<open>-19\<close> at the end of the next)
  fails for a knight jumping off the floor: the two frames end with \<open>-19\<close> and \<open>-18\<close>.
\<close>

theorem jump_next_tick_counterexample:
  "\<not> isl (updates standing_knight [jump_key] 1000)
   \<and> vel_y (projr (updates standing_knight [jump_key] 1000)) = - 19
   \<and> jumped (projr (updates standing_knight [jump_key] 1000))
   \<and> \<not> isl (updates standing_knight [jump_key, no_keys] 1000)
   \<and> vel_y (projr (updates standing_knight [jump_key, no_keys] 1000)) = - 18"
  by (simp add: knight_defs standing_knight_def jump_key_def no_keys_def)

section \<open>Ground friction\<close>

text \<open>
  Claim C3, as amended. Take a frame that returns, with neither the left nor the right key
  held, \<open>jumped\<close> false, and no tile hit horizontally by the collision loop. Then
  \<open>vel_x\<close> keeps its sign and its magnitude becomes \<open>max(0, |vel_x| - 1.3)\<close>, after
  first being multiplied by 0.99 when the sprint key is up and the deceleration ramp is
  active (sprint was held on the previous frame, or a stored ratio \<open>r\<close> has
  \<open>|vel_x| > 7.5 * r\<close>). So \<open>vel_x\<close> moves toward 0 and is exactly 0 once
  \<open>|vel_x| \<le> 1.3\<close>; the step is at most 1.3 without the ramp and at most
  \<open>1.3 + 0.01 * |vel_x|\<close> with it. \<open>_apply_friction\<close> alone takes \<open>|vel_x|\<close> to
  \<open>max(0, |vel_x| - 1.3)\<close> and keeps the sign.
\<close>

theorem friction_toward_zero:
  assumes tick: "update s key L = Inr s'"
      and na: "\<not> K_a key" and nd: "\<not> K_d key" and grounded: "\<not> jumped s"
      and nohit: "\<forall>t\<in>set (world_rects s). vel_x (handle_movement s key) = 0
                    \<or> \<not> colliderect4 t (of_int (rx (rect s)) + vel_x (handle_movement s key))
                           (of_int (ry (rect s))) (rw (rect s)) (rh (rect s))"
  shows "vel_x s' = vel_x (handle_movement s key)
       \<and> (0 \<le> vel_x s \<longrightarrow> 0 \<le> vel_x s' \<and> vel_x s' \<le> vel_x s)
       \<and> (vel_x s \<le> 0 \<longrightarrow> vel_x s \<le> vel_x s' \<and> vel_x s' \<le> 0)
       \<and> \<bar>vel_x s'\<bar> =
           max 0 ((if \<not> K_LSHIFT key
                      \<and> (case (if sprinting s then Some (\<bar>vel_x s\<bar> / (7.5 * 1.7))
                                else sprint_decel_ratio s) of
                            None \<Rightarrow> False
                          | Some r \<Rightarrow> \<bar>vel_x s\<bar> > 7.5 * r)
                   then 0.99 * \<bar>vel_x s\<bar> else \<bar>vel_x s\<bar>) - 1.3)
       \<and> (\<bar>vel_x s\<bar> \<le> 1.3 \<longrightarrow> vel_x s' = 0)
       \<and> \<bar>vel_x s\<bar> - \<bar>vel_x s'\<bar> \<le> 1.3 + 0.01 * \<bar>vel_x s\<bar>
       \<and> (K_LSHIFT key \<or> (\<not> sprinting s \<and> sprint_decel_ratio s = None)
            \<longrightarrow> \<bar>vel_x s'\<bar> = max 0 (\<bar>vel_x s\<bar> - 1.3)
               \<and> \<bar>vel_x s\<bar> - \<bar>vel_x s'\<bar> \<le> 1.3)
       \<and> \<bar>vel_x (apply_friction s key 1.3)\<bar> = max 0 (\<bar>vel_x s\<bar> - 1.3)
       \<and> (0 \<le> vel_x s \<longrightarrow> 0 \<le> vel_x (apply_friction s key 1.3))
       \<and> (vel_x s \<le> 0 \<longrightarrow> vel_x (apply_friction s key 1.3) \<le> 0)"
proof -
  let ?ramp = "\<not> K_LSHIFT key
                \<and> (case (if sprinting s then Some (\<bar>vel_x s\<bar> / (7.5 * 1.7))
                          else sprint_decel_ratio s) of
                      None \<Rightarrow> False
                    | Some r \<Rightarrow> \<bar>vel_x s\<bar> > 7.5 * r)"
  let ?p = "vel_x (fst (sprint_phase s key 0.5 7.5 1.7 1.7))"
  have v: "vel_x s' = vel_x (handle_movement s key)"
    using tick na nd grounded nohit by (rule update_vel_x_no_hit)
  have hm: "vel_x (handle_movement s key) =
              (if ?p > 0 then max 0 (?p - 1.3) else if ?p < 0 then min 0 (?p + 1.3) else ?p)"
    using na nd grounded by (rule handle_movement_vel_x_idle)
  have fr: "vel_x (apply_friction s key 1.3) =
              (if vel_x s > 0 then max 0 (vel_x s - 1.3)
               else if vel_x s < 0 then min 0 (vel_x s + 1.3) else vel_x s)"
    using na nd by (simp add: apply_friction_vel_x)
  have p: "?p = (if ?ramp then vel_x s * 0.99 else vel_x s)"
    using grounded by (simp add: sprint_phase_ground_vel_x split: option.splits)
  have noramp: "K_LSHIFT key \<or> (\<not> sprinting s \<and> sprint_decel_ratio s = None) \<Longrightarrow> \<not> ?ramp"
    by auto
  have A: "\<bar>vel_x (apply_friction s key 1.3)\<bar> = max 0 (\<bar>vel_x s\<bar> - 1.3)
       \<and> (0 \<le> vel_x s \<longrightarrow> 0 \<le> vel_x (apply_friction s key 1.3))
       \<and> (vel_x s \<le> 0 \<longrightarrow> vel_x (apply_friction s key 1.3) \<le> 0)"
    unfolding fr by (auto simp: max_def min_def)
  have B: "(0 \<le> vel_x s \<longrightarrow> 0 \<le> vel_x s' \<and> vel_x s' \<le> vel_x s)
       \<and> (vel_x s \<le> 0 \<longrightarrow> vel_x s \<le> vel_x s' \<and> vel_x s' \<le> 0)
       \<and> \<bar>vel_x s'\<bar> = max 0 ((if ?ramp then 0.99 * \<bar>vel_x s\<bar> else \<bar>vel_x s\<bar>) - 1.3)
       \<and> (\<bar>vel_x s\<bar> \<le> 1.3 \<longrightarrow> vel_x s' = 0)
       \<and> \<bar>vel_x s\<bar> - \<bar>vel_x s'\<bar> \<le> 1.3 + 0.01 * \<bar>vel_x s\<bar>"
  proof (cases ?ramp)
    case True
    have "?p = vel_x s * 0.99" by (subst p) (rule if_P, rule True)
    then show ?thesis unfolding v hm if_P[OF True] by (auto simp: max_def min_def)
  next
    case False
    have "?p = vel_x s" by (subst p) (rule if_not_P, rule False)
    then show ?thesis unfolding v hm if_not_P[OF False] by (auto simp: max_def min_def)
  qed
  have C: "K_LSHIFT key \<or> (\<not> sprinting s \<and> sprint_decel_ratio s = None)
            \<longrightarrow> \<bar>vel_x s'\<bar> = max 0 (\<bar>vel_x s\<bar> - 1.3)
               \<and> \<bar>vel_x s\<bar> - \<bar>vel_x s'\<bar> \<le> 1.3"
  proof
    assume "K_LSHIFT key \<or> (\<not> sprinting s \<and> sprint_decel_ratio s = None)"
    then have nr: "\<not> ?ramp" by (rule noramp)
    have "?p = vel_x s" by (subst p) (rule if_not_P, rule nr)
    then show "\<bar>vel_x s'\<bar> = max 0 (\<bar>vel_x s\<bar> - 1.3) \<and> \<bar>vel_x s\<bar> - \<bar>vel_x s'\<bar> \<le> 1.3"
      unfolding v hm by (auto simp: max_def min_def)
  qed
  from v A B C show ?thesis by blast
qed

theorem friction_toward_zero_witness:
  "\<not> K_a no_keys \<and> \<not> K_d no_keys \<and> \<not> jumped sprinting_knight
   \<and> update sprinting_knight no_keys 1000 = Inr (projr (update sprinting_knight no_keys 1000))
   \<and> vel_x sprinting_knight = 12.75
   \<and> vel_x (handle_movement sprinting_knight no_keys) = 11.3225
   \<and> vel_x (projr (update sprinting_knight no_keys 1000)) = 11.3225
   \<and> \<bar>vel_x (projr (update sprinting_knight no_keys 1000))\<bar> = 0.99 * 12.75 - 1.3
   \<and> \<not> jumped (standing_knight\<lparr>vel_x := - 1\<rparr>)
   \<and> \<not> sprinting (standing_knight\<lparr>vel_x := - 1\<rparr>)
   \<and> sprint_decel_ratio (standing_knight\<lparr>vel_x := - 1\<rparr>) = None
   \<and> update (standing_knight\<lparr>vel_x := - 1\<rparr>) no_keys 1000
        = Inr (projr (update (standing_knight\<lparr>vel_x := - 1\<rparr>) no_keys 1000))
   \<and> vel_x (projr (update (standing_knight\<lparr>vel_x := - 1\<rparr>) no_keys 1000)) = 0"
proof -
  let ?a = "sprinting_knight" and ?b = "standing_knight\<lparr>vel_x := - 1\<rparr>"
  have k: "\<not> K_a no_keys" "\<not> K_d no_keys" by (simp_all add: no_keys_def)
  have g: "\<not> jumped ?a" "\<not> jumped ?b"
    by (simp_all add: sprinting_knight_def standing_knight_def)
  have ua: "update ?a no_keys 1000 = Inr (projr (update ?a no_keys 1000))"
    by (simp add: knight_defs sprinting_knight_def standing_knight_def no_keys_def)
  have ub: "update ?b no_keys 1000 = Inr (projr (update ?b no_keys 1000))"
    by (simp add: knight_defs standing_knight_def no_keys_def)
  have ha: "vel_x (handle_movement ?a no_keys) = 11.3225"
    by (simp add: knight_defs sprinting_knight_def standing_knight_def no_keys_def)
  have hb: "vel_x (handle_movement ?b no_keys) = 0"
    by (simp add: knight_defs standing_knight_def no_keys_def)
  have na: "\<forall>t\<in>set (world_rects ?a). vel_x (handle_movement ?a no_keys) = 0
              \<or> \<not> colliderect4 t (of_int (rx (rect ?a)) + vel_x (handle_movement ?a no_keys))
                     (of_int (ry (rect ?a))) (rw (rect ?a)) (rh (rect ?a))"
    unfolding ha
    by (simp add: sprinting_knight_def standing_knight_def colliderect4_def colliderect_def
        py_int_def)
  have nb: "\<forall>t\<in>set (world_rects ?b). vel_x (handle_movement ?b no_keys) = 0
              \<or> \<not> colliderect4 t (of_int (rx (rect ?b)) + vel_x (handle_movement ?b no_keys))
                     (of_int (ry (rect ?b))) (rw (rect ?b)) (rh (rect ?b))"
    unfolding hb by simp
  have f: "vel_x ?a = 12.75" "\<not> sprinting ?b" "sprint_decel_ratio ?b = None"
    by (simp_all add: sprinting_knight_def standing_knight_def)
  from friction_toward_zero[OF ua k g(1) na] friction_toward_zero[OF ub k g(2) nb]
    k g ua ub ha hb f
  show ?thesis by (auto simp: sprinting_knight_def standing_knight_def)
qed

text \<open>
  The claim as stated fails in three ways on a grounded frame with no movement key. After
  sprint is released at 12.75 the frame ends with 11.3225, a step of 1.4275. With a wall
  two pixels ahead the collision loop takes 7.5 to 2, a step of 5.5. With the box already
  inside a wall the loop replaces 5 by \<open>-9\<close>, changing the sign.
\<close>

theorem friction_step_counterexample:
  "\<not> K_a no_keys \<and> \<not> K_d no_keys \<and> \<not> jumped sprinting_knight
   \<and> \<not> isl (update sprinting_knight no_keys 1000)
   \<and> \<not> jumped (projr (update sprinting_knight no_keys 1000))
   \<and> vel_x sprinting_knight = 12.75
   \<and> vel_x (projr (update sprinting_knight no_keys 1000)) = 11.3225
   \<and> \<not> (\<bar>vel_x sprinting_knight\<bar> - \<bar>vel_x (projr (update sprinting_knight no_keys 1000))\<bar> \<le> 1.3)
   \<and> \<not> jumped wall_runner
   \<and> \<not> isl (update wall_runner no_keys 1000)
   \<and> vel_x wall_runner = 7.5
   \<and> vel_x (projr (update wall_runner no_keys 1000)) = 2
   \<and> \<not> (\<bar>vel_x wall_runner\<bar> - \<bar>vel_x (projr (update wall_runner no_keys 1000))\<bar> \<le> 1.3)
   \<and> \<not> jumped embedded_knight
   \<and> \<not> isl (update embedded_knight no_keys 1000)
   \<and> vel_x embedded_knight = 5
   \<and> vel_x (projr (update embedded_knight no_keys 1000)) = - 9"
  by (simp add: knight_defs tile_defs sprinting_knight_def standing_knight_def wall_runner_def
      embedded_knight_def no_keys_def)

section \<open>Sprint deceleration\<close>




section \<open>The collision loop\<close>

text \<open>
  Claim C5, as amended. For each tile in order, the horizontal test is made on the box at
  the unchanged position moved by the current \<open>vel_x\<close>, with the float coordinate
  \<open>x + vel_x\<close> truncated toward zero to an integer before the overlap is tested (for
  rectangles of positive size \<open>colliderect4\<close> is exactly the overlap of that truncated
  box); on a hit \<open>vel_x\<close> becomes
  \<open>tile.left - rect.right\<close> when positive and \<open>tile.right - rect.left\<close> when negative.
  The vertical test is made on the box moved by the current \<open>vel_y\<close>, whatever the
  horizontal outcome; on a hit \<open>vel_y\<close> becomes \<open>tile.top - rect.bottom\<close> (and \<open>jumped\<close>
  is cleared) when positive and \<open>tile.bottom - rect.top\<close> when negative. The rectangle is
  not changed by the loop. Hence, per axis, the value left by a tile stands at the end of
  the loop as soon as no later tile is hit with that value: the last tile hit decides.
\<close>

theorem handle_collisions_last_match:
  fixes s :: knight and pre post :: "pg_rect list" and t :: pg_rect
  defines "st \<equiv> collide_tile (collide_tiles s pre) t"
  assumes tiles: "world_rects s = pre @ t # post"
  shows "rect (handle_collisions s) = rect s
       \<and> rect (collide_tile s0 u) = rect s0
       \<and> vel_x (collide_tile s0 u) =
           (if colliderect4 u (of_int (rx (rect s0)) + vel_x s0) (of_int (ry (rect s0)))
                 (rw (rect s0)) (rh (rect s0))
            then (if vel_x s0 > 0 then of_int (rect_left u - rect_right (rect s0))
                  else if vel_x s0 < 0 then of_int (rect_right u - rect_left (rect s0))
                  else vel_x s0)
            else vel_x s0)
       \<and> vel_y (collide_tile s0 u) =
           (if colliderect4 u (of_int (rx (rect s0))) (of_int (ry (rect s0) + vel_y s0))
                 (rw (rect s0)) (rh (rect s0))
            then (if vel_y s0 > 0 then rect_top u - rect_bottom (rect s0)
                  else if vel_y s0 < 0 then rect_bottom u - rect_top (rect s0)
                  else vel_y s0)
            else vel_y s0)
       \<and> jumped (collide_tile s0 u) =
           (if colliderect4 u (of_int (rx (rect s0))) (of_int (ry (rect s0) + vel_y s0))
                 (rw (rect s0)) (rh (rect s0)) \<and> vel_y s0 > 0
            then False else jumped s0)
       \<and> ((\<forall>u\<in>set post. vel_x st = 0
              \<or> \<not> colliderect4 u (of_int (rx (rect s)) + vel_x st) (of_int (ry (rect s)))
                     (rw (rect s)) (rh (rect s)))
            \<longrightarrow> vel_x (handle_collisions s) = vel_x st)
       \<and> ((\<forall>u\<in>set post. vel_y st = 0
              \<or> \<not> colliderect4 u (of_int (rx (rect s))) (of_int (ry (rect s) + vel_y st))
                     (rw (rect s)) (rh (rect s)))
            \<longrightarrow> vel_y (handle_collisions s) = vel_y st \<and> jumped (handle_collisions s) = jumped st)
       \<and> (0 < rw u \<and> 0 < rh u \<and> 0 < w \<and> 0 < h
            \<longrightarrow> colliderect4 u x y w h
                  = box_overlaps u (of_int (py_int x)) (of_int (py_int y)) w h)"
proof -
  have hc: "handle_collisions s = collide_tiles st post"
    by (simp add: handle_collisions_def tiles collide_tiles_append st_def)
  have rst: "rect st = rect s"
    by (simp add: st_def collide_tile_rect collide_tiles_rect)
  have x: "(\<forall>u\<in>set post. vel_x st = 0
              \<or> \<not> colliderect4 u (of_int (rx (rect s)) + vel_x st) (of_int (ry (rect s)))
                     (rw (rect s)) (rh (rect s)))
            \<longrightarrow> vel_x (handle_collisions s) = vel_x st"
    using collide_tiles_keep_vel_x[of post st] by (simp add: hc rst)
  have y: "(\<forall>u\<in>set post. vel_y st = 0
              \<or> \<not> colliderect4 u (of_int (rx (rect s))) (of_int (ry (rect s) + vel_y st))
                     (rw (rect s)) (rh (rect s)))
            \<longrightarrow> vel_y (handle_collisions s) = vel_y st \<and> jumped (handle_collisions s) = jumped st"
    using collide_tiles_keep_vel_y[of post st] by (simp add: hc rst)
  have r: "rect (handle_collisions s) = rect s"
    by (simp add: handle_collisions_def collide_tiles_rect)
  have b: "0 < rw u \<and> 0 < rh u \<and> 0 < w \<and> 0 < h
            \<longrightarrow> colliderect4 u x y w h
                  = box_overlaps u (of_int (py_int x)) (of_int (py_int y)) w h"
    using colliderect4_box_overlaps[of u w h x y] by blast
  show ?thesis
    using x y r b collide_tile_rect[of s0 u] collide_tile_vel_x[of s0 u]
      collide_tile_vel_y[of s0 u] collide_tile_jumped[of s0 u]
    by blast
qed

theorem handle_collisions_last_match_witness:
  "world_rects wall_knight = [wall_far, ledge] @ wall_near # [far_tile]
   \<and> world_rects wall_knight = [wall_far] @ ledge # [wall_near, far_tile]
   \<and> vel_x (collide_tile wall_knight wall_far) = 6
   \<and> vel_x (handle_collisions wall_knight) = 3
   \<and> vel_x (handle_collisions wall_knight) = of_int (rect_left wall_near - rect_right (rect wall_knight))
   \<and> vel_y (handle_collisions wall_knight) = 2
   \<and> vel_y (handle_collisions wall_knight) = rect_top ledge - rect_bottom (rect wall_knight)
   \<and> \<not> jumped (handle_collisions wall_knight)
   \<and> rect (handle_collisions wall_knight) = rect wall_knight
   \<and> 0 < rw wall_near \<and> 0 < rh wall_near
   \<and> colliderect4 wall_near 6.5 0 49 66
   \<and> box_overlaps wall_near (of_int (py_int 6.5)) (of_int (py_int 0)) 49 66"
proof -
  let ?sx = "collide_tile (collide_tiles wall_knight [wall_far, ledge]) wall_near"
  let ?sy = "collide_tile (collide_tiles wall_knight [wall_far]) ledge"
  have tx: "world_rects wall_knight = [wall_far, ledge] @ wall_near # [far_tile]"
    and ty: "world_rects wall_knight = [wall_far] @ ledge # [wall_near, far_tile]"
    by (simp_all add: wall_knight_def)
  have vx: "vel_x ?sx = 3" and vy: "vel_y ?sy = 2" and j: "\<not> jumped ?sy"
    and v0: "vel_x (collide_tile wall_knight wall_far) = 6"
    by (simp_all add: knight_defs wall_knight_def tile_defs)
  have hx: "\<forall>u\<in>set [far_tile]. vel_x ?sx = 0
              \<or> \<not> colliderect4 u (of_int (rx (rect wall_knight)) + vel_x ?sx)
                     (of_int (ry (rect wall_knight))) (rw (rect wall_knight)) (rh (rect wall_knight))"
    unfolding vx by (simp add: knight_defs wall_knight_def tile_defs)
  have hy: "\<forall>u\<in>set [wall_near, far_tile]. vel_y ?sy = 0
              \<or> \<not> colliderect4 u (of_int (rx (rect wall_knight)))
                     (of_int (ry (rect wall_knight) + vel_y ?sy))
                     (rw (rect wall_knight)) (rh (rect wall_knight))"
    unfolding vy by (simp add: knight_defs wall_knight_def tile_defs)
  have e: "of_int (rect_left wall_near - rect_right (rect wall_knight)) = (3::real)"
          "rect_top ledge - rect_bottom (rect wall_knight) = 2"
    by (simp_all add: knight_defs wall_knight_def tile_defs)
  have pos: "0 < rw wall_near" "0 < rh wall_near" "(0::int) < 49" "(0::int) < 66"
    and c: "colliderect4 wall_near 6.5 0 49 66"
    by (simp_all add: knight_defs tile_defs)
  from handle_collisions_last_match[OF tx, where u = wall_near and x = "6.5" and y = 0
      and w = 49 and h = 66]
    handle_collisions_last_match[OF ty] hx hy vx vy j v0 tx ty e pos c
  show ?thesis by simp
qed

text \<open>
  The claim as stated takes the condition to be the overlap of the box moved by the
  pending \<open>vel_x\<close>. For the knight touching a wall with \<open>vel_x = 0.6\<close> the moved box
  does overlap the wall, but the code tests the box at the truncated position, finds no
  hit, and leaves \<open>vel_x\<close> at 0.6 instead of \<open>tile.left - rect.right = 0\<close>.
\<close>

theorem collision_test_truncation_counterexample:
  "world_rects wall_toucher = [touching_wall]
   \<and> 0 < vel_x wall_toucher
   \<and> box_overlaps touching_wall (of_int (rx (rect wall_toucher)) + vel_x wall_toucher)
        (of_int (ry (rect wall_toucher))) (rw (rect wall_toucher)) (rh (rect wall_toucher))
   \<and> of_int (rect_left touching_wall - rect_right (rect wall_toucher)) = (0::real)
   \<and> vel_x (handle_collisions wall_toucher) = 0.6
   \<and> vel_x (handle_collisions wall_toucher)
        \<noteq> of_int (rect_left touching_wall - rect_right (rect wall_toucher))"
  by (simp add: knight_defs tile_defs box_overlaps_def wall_toucher_def corner_knight_def)

section \<open>Position and the world limit\<close>

text \<open>
  Claim C6, as amended. After a frame that returns, the new \<open>x\<close> is
  \<open>max(0, min(x + vel_x, world_limit - width))\<close> rounded to the nearest integer by the
  \<open>Rect\<close>, with \<open>vel_x\<close> the velocity left by the collision loop, and the new \<open>y\<close> is
  \<open>y + vel_y\<close> with no clamp. So \<open>x\<close> is never negative; when
  \<open>width \<le> world_limit\<close> it is at most \<open>world_limit - width + 1/2\<close>, and at most
  \<open>world_limit - width\<close> when the limit is an integer.
\<close>

theorem update_x_in_world:
  assumes "update s key L = Inr s'"
  shows "rx (rect s')
           = pg_round (max 0 (min (of_int (rx (rect s)) + vel_x s') (L - of_int (rw (rect s)))))
       \<and> ry (rect s') = ry (rect s) + vel_y s'
       \<and> rw (rect s') = rw (rect s)
       \<and> 0 \<le> rx (rect s')
       \<and> (of_int (rw (rect s)) \<le> L
            \<longrightarrow> of_int (rx (rect s')) \<le> L - of_int (rw (rect s')) + 1 / 2)
       \<and> (of_int (rw (rect s)) \<le> L \<and> L = of_int n
            \<longrightarrow> of_int (rx (rect s')) \<le> L - of_int (rw (rect s')))"
proof -
  note p = update_position[OF assms]
  let ?v = "max 0 (min (of_int (rx (rect s)) + vel_x s') (L - of_int (rw (rect s))))"
  have nn: "0 \<le> ?v" by simp
  have x: "rx (rect s') = pg_round ?v" using p by simp
  have a: "0 \<le> rx (rect s')" using pg_round_nonneg[OF nn] x by simp
  have b: "of_int (rw (rect s)) \<le> L
            \<longrightarrow> of_int (rx (rect s')) \<le> L - of_int (rw (rect s')) + 1 / 2"
  proof
    assume "of_int (rw (rect s)) \<le> L"
    then have "?v \<le> L - of_int (rw (rect s))" by simp
    moreover have "of_int (pg_round ?v) \<le> ?v + 1 / 2"
      using pg_round_near[of ?v] by linarith
    ultimately show "of_int (rx (rect s')) \<le> L - of_int (rw (rect s')) + 1 / 2"
      using p x by simp
  qed
  have c: "of_int (rw (rect s)) \<le> L \<and> L = of_int n
            \<longrightarrow> of_int (rx (rect s')) \<le> L - of_int (rw (rect s'))"
  proof
    assume h: "of_int (rw (rect s)) \<le> L \<and> L = of_int n"
    then have "?v \<le> of_int (n - rw (rect s))" by simp
    then have "pg_round ?v \<le> pg_round (of_int (n - rw (rect s)))" by (rule pg_round_mono)
    then have "rx (rect s') \<le> n - rw (rect s)" unfolding x pg_round_of_int .
    then have "(of_int (rx (rect s')) :: real) \<le> of_int (n - rw (rect s))"
      by (simp only: of_int_le_iff)
    then show "of_int (rx (rect s')) \<le> L - of_int (rw (rect s'))" using h p by simp
  qed
  from p a b c show ?thesis by simp
qed

theorem update_x_in_world_witness:
  "update sprinting_knight no_keys 1000 = Inr (projr (update sprinting_knight no_keys 1000))
   \<and> of_int (rw (rect sprinting_knight)) \<le> (1000::real)
   \<and> (1000::real) = of_int 1000
   \<and> vel_x (projr (update sprinting_knight no_keys 1000)) = 11.3225
   \<and> rx (rect (projr (update sprinting_knight no_keys 1000))) = 111
   \<and> 0 \<le> rx (rect (projr (update sprinting_knight no_keys 1000)))
   \<and> of_int (rx (rect (projr (update sprinting_knight no_keys 1000))))
        \<le> (1000::real) - of_int (rw (rect (projr (update sprinting_knight no_keys 1000))))
   \<and> ry (rect (projr (update sprinting_knight no_keys 1000)))
        = ry (rect sprinting_knight) + vel_y (projr (update sprinting_knight no_keys 1000))"
proof -
  have e: "update sprinting_knight no_keys 1000 = Inr (projr (update sprinting_knight no_keys 1000))"
    by (simp add: knight_defs sprinting_knight_def standing_knight_def no_keys_def)
  have f: "vel_x (projr (update sprinting_knight no_keys 1000)) = 11.3225"
          "rx (rect (projr (update sprinting_knight no_keys 1000))) = 111"
          "of_int (rw (rect sprinting_knight)) \<le> (1000::real)"
    by (simp_all add: knight_defs sprinting_knight_def standing_knight_def no_keys_def)
  from update_x_in_world[OF e, of 1000] e f show ?thesis by simp
qed

text \<open>
  The range of the claim as stated fails in two ways. For a nonnegative limit smaller than
  the player's width the lower bound wins: with \<open>world_limit = 10\<close> and width 49 the frame
  ends with \<open>x = 0\<close>, which is above \<open>10 - 49\<close>. For a limit that is not an integer the
  rounding can pass the bound: with \<open>world_limit = 1000.6\<close> the clamp gives 951.6 and the
  frame ends with \<open>x = 952\<close>.
\<close>

theorem world_clamp_counterexample:
  "(0::real) \<le> 10
   \<and> \<not> isl (update standing_knight no_keys 10)
   \<and> rx (rect (projr (update standing_knight no_keys 10))) = 0
   \<and> rw (rect (projr (update standing_knight no_keys 10))) = 49
   \<and> \<not> (of_int (rx (rect (projr (update standing_knight no_keys 10))))
          \<le> (10::real) - of_int (rw (rect (projr (update standing_knight no_keys 10)))))
   \<and> (0::real) \<le> 1000.6
   \<and> \<not> isl (update edge_knight no_keys 1000.6)
   \<and> rx (rect (projr (update edge_knight no_keys 1000.6))) = 952
   \<and> rw (rect (projr (update edge_knight no_keys 1000.6))) = 49
   \<and> \<not> (of_int (rx (rect (projr (update edge_knight no_keys 1000.6))))
          \<le> (1000.6::real) - of_int (rw (rect (projr (update edge_knight no_keys 1000.6)))))"
  by (simp add: knight_defs edge_knight_def sprinting_knight_def standing_knight_def no_keys_def)

section \<open>The camera\<close>

text \<open>
  Claim C7, as amended. For all borders, \<open>scroll\<close> truncates the smoothed float offset
  and then applies \<open>max\<close> with the left (top) border followed by \<open>min\<close> with
  \<open>right - screen_width\<close> (\<open>bottom - screen_height\<close>). So the offset never exceeds
  \<open>right - screen_width\<close> and \<open>bottom - screen_height\<close>; it is at least \<open>left\<close> when
  \<open>left \<le> right - screen_width\<close> and at least \<open>top\<close> when
  \<open>top \<le> bottom - screen_height\<close>, and otherwise it equals \<open>right - screen_width\<close>,
  respectively \<open>bottom - screen_height\<close>.
\<close>

theorem scroll_offset_within:
  "offset_x (scroll c p left_border right_border top_border bottom_border)
     = min (max left_border
              (py_int (offset_float_x (scroll c p left_border right_border top_border bottom_border))))
           (right_border - screen_width c)
   \<and> offset_y (scroll c p left_border right_border top_border bottom_border)
       = min (max top_border
                (py_int (offset_float_y (scroll c p left_border right_border top_border bottom_border))))
             (bottom_border - screen_height c)
   \<and> offset_x (scroll c p left_border right_border top_border bottom_border)
       \<le> right_border - screen_width c
   \<and> offset_y (scroll c p left_border right_border top_border bottom_border)
       \<le> bottom_border - screen_height c
   \<and> (left_border \<le> right_border - screen_width c
        \<longrightarrow> left_border \<le> offset_x (scroll c p left_border right_border top_border bottom_border))
   \<and> (top_border \<le> bottom_border - screen_height c
        \<longrightarrow> top_border \<le> offset_y (scroll c p left_border right_border top_border bottom_border))
   \<and> (right_border - screen_width c < left_border
        \<longrightarrow> offset_x (scroll c p left_border right_border top_border bottom_border)
              = right_border - screen_width c)
   \<and> (bottom_border - screen_height c < top_border
        \<longrightarrow> offset_y (scroll c p left_border right_border top_border bottom_border)
              = bottom_border - screen_height c)"
  by (simp add: scroll_def Let_def)

theorem scroll_offset_within_witness:
  "(0::int) \<le> 2000 - screen_width start_camera \<and> (0::int) \<le> 1000 - screen_height start_camera
   \<and> offset_float_x (scroll start_camera \<lparr>rx = 1450, ry = 470, rw = 49, rh = 66\<rparr> 0 2000 0 1000) = 111.25
   \<and> offset_x (scroll start_camera \<lparr>rx = 1450, ry = 470, rw = 49, rh = 66\<rparr> 0 2000 0 1000) = 111
   \<and> 0 \<le> offset_x (scroll start_camera \<lparr>rx = 1450, ry = 470, rw = 49, rh = 66\<rparr> 0 2000 0 1000)
   \<and> offset_x (scroll start_camera \<lparr>rx = 1450, ry = 470, rw = 49, rh = 66\<rparr> 0 2000 0 1000) \<le> 2000 - 900
   \<and> 0 \<le> offset_y (scroll start_camera \<lparr>rx = 1450, ry = 470, rw = 49, rh = 66\<rparr> 0 2000 0 1000)
   \<and> offset_y (scroll start_camera \<lparr>rx = 1450, ry = 470, rw = 49, rh = 66\<rparr> 0 2000 0 1000) \<le> 1000 - 700
   \<and> 100 - screen_width start_camera < (0::int) \<and> 100 - screen_height start_camera < (0::int)
   \<and> offset_x (scroll start_camera start_rect 0 100 0 100) = 100 - 900
   \<and> offset_y (scroll start_camera start_rect 0 100 0 100) = 100 - 700"
proof -
  have b: "(0::int) \<le> 2000 - screen_width start_camera"
          "(0::int) \<le> 1000 - screen_height start_camera"
          "100 - screen_width start_camera < (0::int)"
          "100 - screen_height start_camera < (0::int)"
    by (simp_all add: start_camera_def camera_init_def)
  have f: "offset_float_x (scroll start_camera \<lparr>rx = 1450, ry = 470, rw = 49, rh = 66\<rparr> 0 2000 0 1000) = 111.25"
          "screen_width start_camera = 900" "screen_height start_camera = 700"
    by (simp_all add: start_camera_def camera_init_def start_rect_def scroll_def Let_def)
  have t: "py_int 111.25 = 111" by (simp add: py_int_def)
  from scroll_offset_within[of start_camera "\<lparr>rx = 1450, ry = 470, rw = 49, rh = 66\<rparr>" 0 2000 0 1000]
    scroll_offset_within[of start_camera start_rect 0 100 0 100] b f t
  show ?thesis by simp
qed

text \<open>
  For a world narrower than the window the \<open>min\<close> is applied last and the offset falls
  below the left border: borders \<open>0\<close> and \<open>100\<close> with a 900 pixel window give \<open>-800\<close>.
\<close>

theorem scroll_narrow_world_counterexample:
  "offset_x (scroll start_camera start_rect 0 100 0 1000) = - 800
   \<and> 100 - screen_width start_camera = - 800
   \<and> \<not> (0 \<le> offset_x (scroll start_camera start_rect 0 100 0 1000))"
  by (simp add: scroll_def camera_init_def start_camera_def start_rect_def Let_def py_int_def)

text \<open>
  Claim C8. The follow constant is \<open>(-screen_width / 2 + x0 / 4, -y0)\<close> for the player's
  rectangle at construction, and no sequence of \<open>scroll\<close> calls changes it. Each call
  takes as target the player's rectangle of that call plus the constant, moves the float
  offset by a tenth of the distance on each axis, and truncates it toward zero before the
  clamp: the truncated value is the integer between 0 and the float, less than 1 away.
\<close>

theorem camera_follow_target:
  "CONST_x (camera_init p0 sw sh) = - of_int sw / 2 + of_int (rx p0) / 4
   \<and> CONST_y (camera_init p0 sw sh) = - of_int (ry p0)
   \<and> CONST_x (scrolls (camera_init p0 sw sh) calls) = - of_int sw / 2 + of_int (rx p0) / 4
   \<and> CONST_y (scrolls (camera_init p0 sw sh) calls) = - of_int (ry p0)
   \<and> offset_float_x (scroll c p l r t b)
       = offset_float_x c + ((of_int (rx p) + CONST_x c) - offset_float_x c) * 0.1
   \<and> offset_float_y (scroll c p l r t b)
       = offset_float_y c + ((of_int (ry p) + CONST_y c) - offset_float_y c) * 0.1
   \<and> offset_x (scroll c p l r t b)
       = min (max l (py_int (offset_float_x (scroll c p l r t b)))) (r - screen_width c)
   \<and> offset_y (scroll c p l r t b)
       = min (max t (py_int (offset_float_y (scroll c p l r t b)))) (b - screen_height c)
   \<and> \<bar>of_int (py_int v)\<bar> \<le> \<bar>v\<bar> \<and> \<bar>v - of_int (py_int v)\<bar> < 1"
proof -
  have i: "CONST_x (camera_init p0 sw sh) = - of_int sw / 2 + of_int (rx p0) / 4
         \<and> CONST_y (camera_init p0 sw sh) = - of_int (ry p0)"
    by (simp add: camera_init_def)
  have s: "offset_float_x (scroll c p l r t b)
       = offset_float_x c + ((of_int (rx p) + CONST_x c) - offset_float_x c) * 0.1
   \<and> offset_float_y (scroll c p l r t b)
       = offset_float_y c + ((of_int (ry p) + CONST_y c) - offset_float_y c) * 0.1
   \<and> offset_x (scroll c p l r t b)
       = min (max l (py_int (offset_float_x (scroll c p l r t b)))) (r - screen_width c)
   \<and> offset_y (scroll c p l r t b)
       = min (max t (py_int (offset_float_y (scroll c p l r t b)))) (b - screen_height c)"
    by (simp add: scroll_def Let_def)
  from i s scrolls_CONST[of "camera_init p0 sw sh" calls] py_int_toward_zero[of v]
  show ?thesis by simp
qed

section \<open>The airborne flag\<close>

text \<open>
  Claim C9. A frame can turn \<open>jumped\<close> from false to true only when the jump key is
  down. So from a state with \<open>jumped\<close> false, any run of frames without the jump key ends
  with \<open>jumped\<close> false, whatever the tiles and the vertical velocity are, a fall off a
  ledge included. In such a state \<open>_handle_movement\<close> applies \<open>_apply_friction\<close>, runs
  the ground deceleration ramp on the ratio, and takes the speed limit and increment from
  the sprint key alone, not from \<open>was_sprinting_when_jumped\<close>.
\<close>

theorem grounded_until_jump_key:
  assumes run: "updates s ks L = Inr s'"
      and grounded: "\<not> jumped s"
      and nojump: "\<forall>k\<in>set ks. \<not> K_SPACE k"
  shows "\<not> jumped s'
       \<and> (update t k L = Inr t' \<and> \<not> jumped t \<and> jumped t' \<longrightarrow> K_SPACE k)
       \<and> vel_x (handle_movement s' key)
           = vel_x (apply_friction (move_x s' key 0.5 7.5 1.7 1.7) key 1.3)
       \<and> sprint_decel_ratio (handle_movement s' key) =
           (if K_LSHIFT key then sprint_decel_ratio s'
            else case (if sprinting s' then Some (\<bar>vel_x s'\<bar> / (7.5 * 1.7))
                       else sprint_decel_ratio s') of
                   None \<Rightarrow> None
                 | Some r \<Rightarrow> if \<bar>vel_x s'\<bar> > 7.5 * r then Some (r * 0.99) else None)
       \<and> snd (sprint_phase s' key 0.5 7.5 1.7 1.7)
           = (if K_LSHIFT key then (7.5 * 1.7, 0.5 * 1.7) else (7.5, 0.5))"
proof -
  have g: "\<not> jumped s'" using run grounded nojump by (rule updates_stay_grounded)
  have j: "update t k L = Inr t' \<and> \<not> jumped t \<and> jumped t' \<longrightarrow> K_SPACE k"
    using update_jumped[of t k L t'] by blast
  from g j show ?thesis
    by (simp add: handle_movement_vel_x_ground handle_movement_ratio move_x_ratio
        sprint_phase_ground_ratio sprint_phase_ground_params split: option.splits)
qed

theorem grounded_until_jump_key_witness:
  "\<not> jumped ledge_walker \<and> \<not> K_SPACE no_keys \<and> world_rects ledge_walker = []
   \<and> \<not> isl (updates ledge_walker [no_keys, no_keys] 1000)
   \<and> \<not> jumped (projr (updates ledge_walker [no_keys, no_keys] 1000))
   \<and> vel_y (projr (updates ledge_walker [no_keys, no_keys] 1000)) = 2
   \<and> ry (rect (projr (updates ledge_walker [no_keys, no_keys] 1000))) = ry (rect ledge_walker) + 3
   \<and> vel_x (projr (updates ledge_walker [no_keys, no_keys] 1000)) = 0.4
   \<and> vel_x (handle_movement (projr (updates ledge_walker [no_keys, no_keys] 1000)) no_keys)
       = vel_x (apply_friction
           (move_x (projr (updates ledge_walker [no_keys, no_keys] 1000)) no_keys 0.5 7.5 1.7 1.7)
           no_keys 1.3)
   \<and> update standing_knight jump_key 1000
       = Inr (standing_knight\<lparr>counter := 1, vel_y := - 19, jumped := True,
                rect := \<lparr>rx = 100, ry = 15, rw = 49, rh = 66\<rparr>\<rparr>)
   \<and> K_SPACE jump_key"
proof -
  let ?t' = "standing_knight\<lparr>counter := 1, vel_y := - 19, jumped := True,
                rect := \<lparr>rx = 100, ry = 15, rw = 49, rh = 66\<rparr>\<rparr>"
  have e: "updates ledge_walker [no_keys, no_keys] 1000
             = Inr (projr (updates ledge_walker [no_keys, no_keys] 1000))"
    by (simp add: knight_defs ledge_walker_def standing_knight_def no_keys_def)
  have g: "\<not> jumped ledge_walker" and w: "world_rects ledge_walker = []"
    by (simp_all add: ledge_walker_def standing_knight_def)
  have k: "\<forall>k\<in>set [no_keys, no_keys]. \<not> K_SPACE k" and k': "\<not> K_SPACE no_keys"
    by (simp_all add: no_keys_def)
  have f: "\<not> isl (updates ledge_walker [no_keys, no_keys] 1000)"
          "vel_y (projr (updates ledge_walker [no_keys, no_keys] 1000)) = 2"
          "ry (rect (projr (updates ledge_walker [no_keys, no_keys] 1000))) = ry (rect ledge_walker) + 3"
          "vel_x (projr (updates ledge_walker [no_keys, no_keys] 1000)) = 0.4"
    by (simp_all add: knight_defs ledge_walker_def standing_knight_def no_keys_def)
  have u: "update standing_knight jump_key 1000 = Inr ?t'"
    by (simp add: knight_defs standing_knight_def jump_key_def)
  have j: "\<not> jumped standing_knight" "jumped ?t'"
    by (simp_all add: standing_knight_def)
  from grounded_until_jump_key[OF e g k, where t = standing_knight and k = jump_key
      and t' = ?t' and key = no_keys] g w k' f u j
  show ?thesis by simp
qed

section \<open>Animation frames\<close>

text \<open>
  Claim C10. Let the run sheet hold 16 and the idle sheet 4 frames of 14 by 19 pixels.
  Then a run of frames either returns or stops with the \<open>TypeError\<close> of a rectangle
  coordinate leaving the C integer range; it never stops in \<open>animate\<close>. After any run
  that returns, \<open>animate\<close> returns on the next frame, and whenever it cuts a sprite (the
  counter passes the hold of the active cycle) the index has just been reduced modulo the
  length of the active cycle: it lies between 0 and that length minus 1, and the area cut
  lies inside the sheet. The rest of the frame keeps that index and image. This holds for
  every index before the frame, the last run index on the frame that switches to the idle
  cycle included.
\<close>

theorem frame_index_in_cycle:
  assumes run_sheet_fits: "16 * size_w \<le> surf_w (run_sheet s)" "size_h \<le> surf_h (run_sheet s)"
      and idle_sheet_fits: "4 * size_w \<le> surf_w (idle_sheet s)" "size_h \<le> surf_h (idle_sheet s)"
  shows "updates s ks L = Inl TypeError
       \<or> (\<exists>t a. updates s ks L = Inr t
            \<and> animate t (if K_a key \<or> K_d key then run_sheet t else idle_sheet t)
                (if K_a key \<or> K_d key then 16 else 4) (if K_a key \<or> K_d key then 8 else 10) = Inr a
            \<and> (if counter t + 1 > (if K_a key \<or> K_d key then 8 else 10)
               then index a = (index t + 1) mod (if K_a key \<or> K_d key then 16 else 4)
                  \<and> 0 \<le> index a \<and> index a \<le> (if K_a key \<or> K_d key then 16 else 4) - 1
                  \<and> area (image a) = \<lparr>rx = index a * 14, ry = 0, rw = 14, rh = 19\<rparr>
                  \<and> 0 \<le> rx (area (image a))
                  \<and> rx (area (image a)) + rw (area (image a))
                       \<le> (if K_a key \<or> K_d key then 16 else 4) * 14
                  \<and> rx (area (image a)) + rw (area (image a))
                       \<le> surf_w (if K_a key \<or> K_d key then run_sheet t else idle_sheet t)
                  \<and> ry (area (image a)) + rh (area (image a))
                       \<le> surf_h (if K_a key \<or> K_d key then run_sheet t else idle_sheet t)
               else index a = index t \<and> image a = image t)
            \<and> (update t key L = Inl TypeError
                 \<or> (\<exists>t'. update t key L = Inr t' \<and> index t' = index a \<and> image t' = image a)))"
proof -
  have fit: "sheets_fit s" using assms by (simp add: sheets_fit_def)
  from updates_return[OF fit, of ks L] show ?thesis
  proof
    assume "updates s ks L = Inl TypeError"
    then show ?thesis by simp
  next
    assume "\<exists>t. updates s ks L = Inr t \<and> sheets_fit t"
    then obtain t where r: "updates s ks L = Inr t" and ft: "sheets_fit t" by blast
    from animate_in_cycle[OF ft, of key] obtain a
      where an: "animate t (if K_a key \<or> K_d key then run_sheet t else idle_sheet t)
                   (if K_a key \<or> K_d key then 16 else 4) (if K_a key \<or> K_d key then 8 else 10) = Inr a"
        and p: "if counter t + 1 > (if K_a key \<or> K_d key then 8 else 10)
                then index a = (index t + 1) mod (if K_a key \<or> K_d key then 16 else 4)
                   \<and> area (image a) = \<lparr>rx = index a * size_w, ry = 0, rw = size_w, rh = size_h\<rparr>
                else index a = index t \<and> image a = image t"
      by blast
    have q: "if counter t + 1 > (if K_a key \<or> K_d key then 8 else 10)
               then index a = (index t + 1) mod (if K_a key \<or> K_d key then 16 else 4)
                  \<and> 0 \<le> index a \<and> index a \<le> (if K_a key \<or> K_d key then 16 else 4) - 1
                  \<and> area (image a) = \<lparr>rx = index a * 14, ry = 0, rw = 14, rh = 19\<rparr>
                  \<and> 0 \<le> rx (area (image a))
                  \<and> rx (area (image a)) + rw (area (image a))
                       \<le> (if K_a key \<or> K_d key then 16 else 4) * 14
                  \<and> rx (area (image a)) + rw (area (image a))
                       \<le> surf_w (if K_a key \<or> K_d key then run_sheet t else idle_sheet t)
                  \<and> ry (area (image a)) + rh (area (image a))
                       \<le> surf_h (if K_a key \<or> K_d key then run_sheet t else idle_sheet t)
               else index a = index t \<and> image a = image t"
      using p ft by (auto simp: sheets_fit_def size_w_def size_h_def split: if_splits)
    have u: "update t key L = Inl TypeError
           \<or> (\<exists>t'. update t key L = Inr t' \<and> index t' = index a \<and> image t' = image a)"
      using update_after_animate[OF an, of L] by blast
    from r an q u show ?thesis by blast
  qed
qed

theorem frame_index_in_cycle_witness:
  "16 * size_w \<le> surf_w (run_sheet run_to_idle_knight)
   \<and> size_h \<le> surf_h (run_sheet run_to_idle_knight)
   \<and> 4 * size_w \<le> surf_w (idle_sheet run_to_idle_knight)
   \<and> size_h \<le> surf_h (idle_sheet run_to_idle_knight)
   \<and> index run_to_idle_knight = 15 \<and> counter run_to_idle_knight + 1 > 10
   \<and> updates run_to_idle_knight [] 1000 = Inr run_to_idle_knight
   \<and> \<not> isl (update run_to_idle_knight no_keys 1000)
   \<and> index (projr (update run_to_idle_knight no_keys 1000)) = 0
   \<and> area (image (projr (update run_to_idle_knight no_keys 1000)))
       = \<lparr>rx = 0, ry = 0, rw = 14, rh = 19\<rparr>"
proof -
  have f: "16 * size_w \<le> surf_w (run_sheet run_to_idle_knight)"
          "size_h \<le> surf_h (run_sheet run_to_idle_knight)"
          "4 * size_w \<le> surf_w (idle_sheet run_to_idle_knight)"
          "size_h \<le> surf_h (idle_sheet run_to_idle_knight)"
    by (simp_all add: run_to_idle_knight_def standing_knight_def size_w_def size_h_def)
  have c: "index run_to_idle_knight = 15" "counter run_to_idle_knight + 1 > 10"
          "\<not> (K_a no_keys \<or> K_d no_keys)"
    by (simp_all add: run_to_idle_knight_def standing_knight_def no_keys_def)
  have r: "updates run_to_idle_knight [] 1000 = Inr run_to_idle_knight" by simp
  have "\<exists>t'. update run_to_idle_knight no_keys 1000 = Inr t'"
    by (simp add: knight_defs run_to_idle_knight_def standing_knight_def no_keys_def)
  then obtain t' where n: "update run_to_idle_knight no_keys 1000 = Inr t'" by blast
  from frame_index_in_cycle[OF f, of "[]" 1000 no_keys] r c n
  have "index t' = 0 \<and> area (image t') = \<lparr>rx = 0, ry = 0, rw = 14, rh = 19\<rparr>"
    by auto
  with f c r n show ?thesis by simp
qed

end
